theory Spec2Isabelle
  imports Complex_Main "HOL-Library.AList"
begin

section \<open>Compliant contact subsystem: data model\<close>

text \<open>
  A shallow embedding of \<^verbatim>\<open>CompliantContactSubsystem.cpp\<close>. The C++ type
  \<^verbatim>\<open>Real\<close> is read as the mathematical reals: rounding, infinities and NaN are outside
  that reading, so a statement made in it is about the formulas the code evaluates, in
  exact arithmetic. Where the C++ would divide by zero or take the root of a negative
  number the HOL value (\<open>x / 0 = 0\<close>, \<open>sqrt (- x) = - sqrt x\<close>) has no counterpart in the
  program. A theorem below that needs the sign of such a quantity assumes the ranges that
  exclude the case (positive stiffness, nonnegative radius); a theorem that names a branch
  by its test (\<open>fNormal \<le> 0\<close>) is to be read on inputs for which the program computes a
  number. The setter of the transition velocity, whose specification speaks of the
  floating-point values it stores, and the computation of the power loss in the Hertz
  generator are read a second time in IEEE 754 binary64 arithmetic (section
  \<open>Binary64 arithmetic\<close>).
\<close>

datatype error =
    AssertionFailed     \<comment> \<open>\<^verbatim>\<open>assert\<close> or \<^verbatim>\<open>SimTK_ASSERT\<close> failed\<close>
  | ErrorCheck          \<comment> \<open>\<^verbatim>\<open>SimTK_ERRCHK1_ALWAYS\<close> threw\<close>
  | StageViolation      \<comment> \<open>\<^verbatim>\<open>SimTK_STAGECHECK_GE_ALWAYS\<close> threw\<close>
  | IndexOutOfRange     \<comment> \<open>a vector element outside its allocated range\<close>
  | DanglingPointer     \<comment> \<open>a generator pointer that does not address a live object\<close>
  | ContactNotFound     \<comment> \<open>a contact id that the snapshot of active contacts does not hold\<close>

type_synonym Vec3 = "real \<times> real \<times> real"
type_synonym SpatialVec = "Vec3 \<times> Vec3"
type_synonym Transform = "(Vec3 \<times> Vec3 \<times> Vec3) \<times> Vec3"

definition Vec3_zero :: Vec3 where
  "Vec3_zero = (0, 0, 0)"

fun vec_add :: "Vec3 \<Rightarrow> Vec3 \<Rightarrow> Vec3" where
  "vec_add (a1, a2, a3) (b1, b2, b3) = (a1 + b1, a2 + b2, a3 + b3)"

fun vec_sub :: "Vec3 \<Rightarrow> Vec3 \<Rightarrow> Vec3" where
  "vec_sub (a1, a2, a3) (b1, b2, b3) = (a1 - b1, a2 - b2, a3 - b3)"

fun vec_scale :: "real \<Rightarrow> Vec3 \<Rightarrow> Vec3" where
  "vec_scale s (a1, a2, a3) = (s * a1, s * a2, s * a3)"

fun dot :: "Vec3 \<Rightarrow> Vec3 \<Rightarrow> real" where
  "dot (a1, a2, a3) (b1, b2, b3) = a1 * b1 + a2 * b2 + a3 * b3"



fun normSqr :: "Vec3 \<Rightarrow> real" where
  "normSqr (a1, a2, a3) = a1 * a1 + a2 * a2 + a3 * a3"

definition square :: "real \<Rightarrow> real" where
  "square x = x * x"

text \<open>
  The identifiers handed out by the tracker. A contact id is either invalid (the state of
  a default-constructed or cleared id) or a number; a contact type id is an opaque token,
  one per concrete contact class.
\<close>

datatype ContactId = InvalidContactId | ContactId int

datatype ContactTypeId =
    CircularPointContactType
  | OtherContactType nat

record ContactMaterial =
  getStiffness23 :: real
  getDissipation :: real
  getStaticFriction :: real
  getDynamicFriction :: real
  getViscousFriction :: real

record Contact =
  getContactId :: ContactId
  getTypeId :: ContactTypeId
  getSurface1 :: nat
  getSurface2 :: nat
  getDepth :: real
  getNormal :: Vec3
  getOrigin :: Vec3
  getEffectiveRadius :: real

record ContactForce =
  m_contactId :: ContactId
  m_centerOfPressureInG :: Vec3
  m_forceOnSurface2InG :: SpatialVec
  m_potentialEnergy :: real
  m_powerLoss :: real

text \<open>
  Modelled from the spec: the class \<^verbatim>\<open>ContactForce\<close> is declared in a header that is
  not part of the sources at hand. The spec calls the no-force result an explicit
  "invalid" marker, and the code's own comment on \<^verbatim>\<open>clear()\<close> is "invalidate return
  result": clearing invalidates the contact id and writes no other field, validity is
  validity of the id, and a default-constructed record is invalid with the other fields
  holding whatever the storage held (the parameter \<open>uninit\<close>).
\<close>

definition ContactForce_clear :: "ContactForce \<Rightarrow> ContactForce" where
  "ContactForce_clear f = f\<lparr>m_contactId := InvalidContactId\<rparr>"

definition ContactForce_isValid :: "ContactForce \<Rightarrow> bool" where
  "ContactForce_isValid f = (m_contactId f \<noteq> InvalidContactId)"

definition ContactForce_ctor :: "ContactForce \<Rightarrow> ContactForce" where
  "ContactForce_ctor uninit = uninit\<lparr>m_contactId := InvalidContactId\<rparr>"

text \<open>
  The contact tracker, an external collaborator, is the three lookups the code makes on
  it, each keyed by a contact surface index.
\<close>

record ContactTrackerSubsystem =
  getMobilizedBody :: "nat \<Rightarrow> nat"
  getContactSurfaceTransform :: "nat \<Rightarrow> Transform"
  getContactSurfaceMaterial :: "nat \<Rightarrow> ContactMaterial"

text \<open>
  What a state knows about one mobilized body, as far as this file asks: the location of
  the body origin and the three kinematic queries, each a function of its remaining
  argument.
\<close>

record MobodKinematics =
  bodyOriginLocation :: Vec3
  stationAtGroundPoint :: "Vec3 \<Rightarrow> Vec3"
  stationVelocityInGround :: "Vec3 \<Rightarrow> Vec3"
  frameVelocityInGround :: "Transform \<Rightarrow> SpatialVec"

datatype Stage =
    StageEmpty | StageTopology | StageModel | StageInstance | StageTime
  | StagePosition | StageVelocity | StageDynamics | StageAcceleration | StageReport

fun stage_rank :: "Stage \<Rightarrow> nat" where
  "stage_rank StageEmpty = 0"
| "stage_rank StageTopology = 1"
| "stage_rank StageModel = 2"
| "stage_rank StageInstance = 3"
| "stage_rank StageTime = 4"
| "stage_rank StagePosition = 5"
| "stage_rank StageVelocity = 6"
| "stage_rank StageDynamics = 7"
| "stage_rank StageAcceleration = 8"
| "stage_rank StageReport = 9"

definition stage_ge :: "Stage \<Rightarrow> Stage \<Rightarrow> bool" where
  "stage_ge a b = (stage_rank b \<le> stage_rank a)"

text \<open>
  The part of \<^verbatim>\<open>State\<close> this subsystem reads and writes: the realization stage, the
  tracker's active contacts, the bodies' kinematics, the system's array of rigid body
  forces (one spatial force per mobilized body), the auxiliary variables \<open>z\<close> with their
  derivatives, and the two lazy cache entries, each a value with its "realized" mark,
  together with the topology version of the subsystem under which the entries were
  allocated. The potential-energy entry is allocated holding NaN, which is \<open>None\<close> here.
\<close>

record State =
  getStage :: Stage
  getActiveContacts :: "Contact list"
  mobodKinematics :: "nat \<Rightarrow> MobodKinematics"
  rigidBodyForces :: "nat \<Rightarrow> SpatialVec"
  getZ :: "real list"
  getZDot :: "real list"
  cacheTopologyVersion :: nat
  forceCache :: "ContactForce list"
  forceCacheRealized :: bool
  potEnergyCache :: "real option"
  potEnergyCacheRealized :: bool


definition findStationAtGroundPoint :: "State \<Rightarrow> nat \<Rightarrow> Vec3 \<Rightarrow> Vec3" where
  "findStationAtGroundPoint state mobod p = stationAtGroundPoint (mobodKinematics state mobod) p"

definition findStationVelocityInGround :: "State \<Rightarrow> nat \<Rightarrow> Vec3 \<Rightarrow> Vec3" where
  "findStationVelocityInGround state mobod s =
     stationVelocityInGround (mobodKinematics state mobod) s"

definition findFrameVelocityInGround :: "State \<Rightarrow> nat \<Rightarrow> Transform \<Rightarrow> SpatialVec" where
  "findFrameVelocityInGround state mobod X = frameVelocityInGround (mobodKinematics state mobod) X"

text \<open>
  Force generators are objects on the free store, addressed by pointers. The Hertz
  generator is the one this file defines; every other class (elastic foundation,
  do-nothing, user-written) is its force computation, taken as given.
\<close>

datatype GeneratorClass =
    HertzCircular
  | ExternalGenerator
      "State \<Rightarrow> Contact \<Rightarrow> SpatialVec \<Rightarrow> SpatialVec \<Rightarrow> ContactForce \<Rightarrow> error + ContactForce"

record ContactForceGenerator =
  generatorClass :: GeneratorClass
  getContactTypeId :: ContactTypeId
  m_compliantContactSubsys :: "nat option"

type_synonym generator_ptr = nat

record CompliantContactSubsystemImpl =
  m_tracker :: ContactTrackerSubsystem
  m_transitionVelocity :: real
  m_ooTransitionVelocity :: real
  m_generators :: "(ContactTypeId \<times> generator_ptr) list"
  m_defaultGenerator :: "generator_ptr option"
  m_dissipatedEnergyIx :: "nat option"
  subsystemTopologyVersion :: nat
  freeStore :: "generator_ptr \<rightharpoonup> ContactForceGenerator"
  nextFree :: generator_ptr

section \<open>Construction, accessors and the generator registry\<close>

definition CompliantContactSubsystemImpl_ctor ::
  "ContactTrackerSubsystem \<Rightarrow> CompliantContactSubsystemImpl" where
  "CompliantContactSubsystemImpl_ctor tracker =
     \<lparr>m_tracker = tracker,
      m_transitionVelocity = 0.01,
      m_ooTransitionVelocity = 1 / 0.01,
      m_generators = [],
      m_defaultGenerator = None,
      m_dissipatedEnergyIx = None,
      subsystemTopologyVersion = 0,
      freeStore = Map.empty,
      nextFree = 0\<rparr>"

definition getTransitionVelocity :: "CompliantContactSubsystemImpl \<Rightarrow> real" where
  "getTransitionVelocity impl = m_transitionVelocity impl"

definition getOOTransitionVelocity :: "CompliantContactSubsystemImpl \<Rightarrow> real" where
  "getOOTransitionVelocity impl = m_ooTransitionVelocity impl"

definition Impl_setTransitionVelocity ::
  "CompliantContactSubsystemImpl \<Rightarrow> real \<Rightarrow> CompliantContactSubsystemImpl" where
  "Impl_setTransitionVelocity impl vt =
     impl\<lparr>m_transitionVelocity := vt, m_ooTransitionVelocity := 1 / vt\<rparr>"

text \<open>
  The public setter: the error check throws before the implementation is touched, so the
  failing call returns the error together with the subsystem as it was.
\<close>

definition setTransitionVelocity ::
  "CompliantContactSubsystemImpl \<Rightarrow> real \<Rightarrow> error option \<times> CompliantContactSubsystemImpl" where
  "setTransitionVelocity impl vt =
     (if vt > 0 then (None, Impl_setTransitionVelocity impl vt)
      else (Some ErrorCheck, impl))"

definition getContactTrackerSubsystem ::
  "CompliantContactSubsystemImpl \<Rightarrow> ContactTrackerSubsystem" where
  "getContactTrackerSubsystem impl = m_tracker impl"

text \<open>
  Modelled from the spec: \<^verbatim>\<open>invalidateSubsystemTopologyCache\<close> and
  \<^verbatim>\<open>isCacheValueRealized\<close> belong to the subsystem base class, outside the sources at
  hand. By the spec, \<open>invalidate()\<close> "clears validity" and "adding/replacing a generator
  invalidates everything derived from it": every change of the registry starts a new
  topology version of the subsystem, and a cache entry counts as realized only if it
  carries its mark and was allocated under the subsystem's present topology version.
\<close>

definition invalidateSubsystemTopologyCache ::
  "CompliantContactSubsystemImpl \<Rightarrow> CompliantContactSubsystemImpl" where
  "invalidateSubsystemTopologyCache impl =
     impl\<lparr>subsystemTopologyVersion := Suc (subsystemTopologyVersion impl)\<rparr>"

definition isCacheValueRealized ::
  "CompliantContactSubsystemImpl \<Rightarrow> State \<Rightarrow> bool \<Rightarrow> bool" where
  "isCacheValueRealized impl s mark =
     (mark \<and> cacheTopologyVersion s = subsystemTopologyVersion impl)"

definition isPotentialEnergyCacheValid :: "CompliantContactSubsystemImpl \<Rightarrow> State \<Rightarrow> bool" where
  "isPotentialEnergyCacheValid impl s = isCacheValueRealized impl s (potEnergyCacheRealized s)"

definition isForceCacheValid :: "CompliantContactSubsystemImpl \<Rightarrow> State \<Rightarrow> bool" where
  "isForceCacheValid impl s = isCacheValueRealized impl s (forceCacheRealized s)"

text \<open>\<^verbatim>\<open>new\<close> and \<^verbatim>\<open>delete\<close> on generator objects. Deleting null does nothing.\<close>

definition new_generator ::
  "CompliantContactSubsystemImpl \<Rightarrow> ContactForceGenerator
     \<Rightarrow> generator_ptr \<times> CompliantContactSubsystemImpl" where
  "new_generator impl obj =
     (nextFree impl,
      impl\<lparr>freeStore := (freeStore impl)(nextFree impl \<mapsto> obj), nextFree := Suc (nextFree impl)\<rparr>)"

definition delete_generator ::
  "CompliantContactSubsystemImpl \<Rightarrow> generator_ptr option \<Rightarrow> error + CompliantContactSubsystemImpl" where
  "delete_generator impl p =
     (case p of
        None \<Rightarrow> Inr impl
      | Some a \<Rightarrow>
          (if a \<in> dom (freeStore impl) then Inr (impl\<lparr>freeStore := (freeStore impl)(a := None)\<rparr>)
           else Inl DanglingPointer))"

definition setCompliantContactSubsystem ::
  "CompliantContactSubsystemImpl \<Rightarrow> generator_ptr \<Rightarrow> nat \<Rightarrow> error + CompliantContactSubsystemImpl" where
  "setCompliantContactSubsystem impl g subsys =
     (case freeStore impl g of
        None \<Rightarrow> Inl DanglingPointer
      | Some obj \<Rightarrow>
          Inr (impl\<lparr>freeStore := (freeStore impl)(g \<mapsto> obj\<lparr>m_compliantContactSubsys := Some subsys\<rparr>)\<rparr>))"

text \<open>
  The registry is a \<^verbatim>\<open>std::map\<close>: \<open>find\<close> is \<open>map_of\<close>, assigning through the iterator
  replaces the value in place, and \<open>insert\<close> of an absent key adds one pair.
\<close>

definition adoptForceGenerator ::
  "CompliantContactSubsystemImpl \<Rightarrow> nat \<Rightarrow> generator_ptr option
     \<Rightarrow> error + CompliantContactSubsystemImpl" where
  "adoptForceGenerator impl subsys generator =
     (case generator of
        None \<Rightarrow> Inl AssertionFailed
      | Some g \<Rightarrow>
          (case setCompliantContactSubsystem impl g subsys of
             Inl e \<Rightarrow> Inl e
           | Inr impl1 \<Rightarrow>
               (let impl2 = invalidateSubsystemTopologyCache impl1 in
                case freeStore impl2 g of
                  None \<Rightarrow> Inl DanglingPointer
                | Some obj \<Rightarrow>
                    (case map_of (m_generators impl2) (getContactTypeId obj) of
                       Some old \<Rightarrow>
                         (case delete_generator impl2 (Some old) of
                            Inl e \<Rightarrow> Inl e
                          | Inr impl3 \<Rightarrow>
                              Inr (impl3\<lparr>m_generators :=
                                     AList.update (getContactTypeId obj) g (m_generators impl3)\<rparr>))
                     | None \<Rightarrow>
                         Inr (impl2\<lparr>m_generators :=
                                m_generators impl2 @ [(getContactTypeId obj, g)]\<rparr>)))))"

definition adoptDefaultForceGenerator ::
  "CompliantContactSubsystemImpl \<Rightarrow> nat \<Rightarrow> generator_ptr option
     \<Rightarrow> error + CompliantContactSubsystemImpl" where
  "adoptDefaultForceGenerator impl subsys generator =
     (let impl1 = invalidateSubsystemTopologyCache impl in
      case delete_generator impl1 (m_defaultGenerator impl1) of
        Inl e \<Rightarrow> Inl e
      | Inr impl2 \<Rightarrow>
          (let impl3 = impl2\<lparr>m_defaultGenerator := generator\<rparr> in
           case m_defaultGenerator impl3 of
             None \<Rightarrow> Inr impl3
           | Some g \<Rightarrow> setCompliantContactSubsystem impl3 g subsys))"

definition hasForceGenerator :: "CompliantContactSubsystemImpl \<Rightarrow> ContactTypeId \<Rightarrow> bool" where
  "hasForceGenerator impl type = (map_of (m_generators impl) type \<noteq> None)"

definition hasDefaultForceGenerator :: "CompliantContactSubsystemImpl \<Rightarrow> bool" where
  "hasDefaultForceGenerator impl = (m_defaultGenerator impl \<noteq> None)"

definition getDefaultForceGenerator ::
  "CompliantContactSubsystemImpl \<Rightarrow> error + generator_ptr" where
  "getDefaultForceGenerator impl =
     (case m_defaultGenerator impl of None \<Rightarrow> Inl AssertionFailed | Some g \<Rightarrow> Inr g)"

definition getForceGenerator ::
  "CompliantContactSubsystemImpl \<Rightarrow> ContactTypeId \<Rightarrow> error + generator_ptr" where
  "getForceGenerator impl type =
     (case map_of (m_generators impl) type of
        Some g \<Rightarrow> Inr g
      | None \<Rightarrow> getDefaultForceGenerator impl)"

text \<open>
  The public constructor. The classes \<^verbatim>\<open>ElasticFoundation\<close> and \<^verbatim>\<open>DoNothing\<close> are
  defined elsewhere, so the objects their constructors build are parameters; the Hertz
  generator serves circular point contacts.
\<close>

definition HertzCircular_ctor :: ContactForceGenerator where
  "HertzCircular_ctor =
     \<lparr>generatorClass = HertzCircular,
      getContactTypeId = CircularPointContactType,
      m_compliantContactSubsys = None\<rparr>"

definition CompliantContactSubsystem_ctor ::
  "nat \<Rightarrow> ContactTrackerSubsystem \<Rightarrow> ContactForceGenerator \<Rightarrow> ContactForceGenerator
     \<Rightarrow> error + CompliantContactSubsystemImpl" where
  "CompliantContactSubsystem_ctor subsys tracker elasticFoundation doNothing =
     (let impl0 = CompliantContactSubsystemImpl_ctor tracker;
          (g1, impl1) = new_generator impl0 HertzCircular_ctor
      in case adoptForceGenerator impl1 subsys (Some g1) of
           Inl e \<Rightarrow> Inl e
         | Inr impl2 \<Rightarrow>
             (let (g2, impl3) = new_generator impl2 elasticFoundation
              in case adoptForceGenerator impl3 subsys (Some g2) of
                   Inl e \<Rightarrow> Inl e
                 | Inr impl4 \<Rightarrow>
                     (let (g3, impl5) = new_generator impl4 doNothing
                      in adoptDefaultForceGenerator impl5 subsys (Some g3))))"

section \<open>The dissipated-energy variable\<close>

text \<open>
  Realizing the topology allocates the two lazy cache entries, not yet realized, under
  the subsystem's present topology version, and one new \<open>z\<close> variable initialised to
  zero, whose index the subsystem remembers. Until then the index member is invalid
  (\<open>None\<close>), and reading or writing the variable through it fails.
\<close>

definition realizeSubsystemTopologyImpl ::
  "CompliantContactSubsystemImpl \<Rightarrow> State \<Rightarrow> CompliantContactSubsystemImpl \<times> State" where
  "realizeSubsystemTopologyImpl impl s =
     (impl\<lparr>m_dissipatedEnergyIx := Some (length (getZ s))\<rparr>,
      s\<lparr>cacheTopologyVersion := subsystemTopologyVersion impl,
        forceCache := [], forceCacheRealized := False,
        potEnergyCache := None, potEnergyCacheRealized := False,
        getZ := getZ s @ [0], getZDot := getZDot s @ [0]\<rparr>)"

definition getDissipatedEnergyVar :: "CompliantContactSubsystemImpl \<Rightarrow> State \<Rightarrow> error + real" where
  "getDissipatedEnergyVar impl s =
     (case m_dissipatedEnergyIx impl of
        None \<Rightarrow> Inl IndexOutOfRange
      | Some ix \<Rightarrow> (if ix < length (getZ s) then Inr (getZ s ! ix) else Inl IndexOutOfRange))"

definition updDissipatedEnergyVar ::
  "CompliantContactSubsystemImpl \<Rightarrow> State \<Rightarrow> real \<Rightarrow> error option \<times> State" where
  "updDissipatedEnergyVar impl s v =
     (case m_dissipatedEnergyIx impl of
        None \<Rightarrow> (Some IndexOutOfRange, s)
      | Some ix \<Rightarrow>
          (if ix < length (getZ s) then (None, s\<lparr>getZ := (getZ s)[ix := v]\<rparr>)
           else (Some IndexOutOfRange, s)))"


definition getDissipatedEnergy :: "CompliantContactSubsystemImpl \<Rightarrow> State \<Rightarrow> error + real" where
  "getDissipatedEnergy impl s = getDissipatedEnergyVar impl s"

definition setDissipatedEnergy ::
  "CompliantContactSubsystemImpl \<Rightarrow> State \<Rightarrow> real \<Rightarrow> error option \<times> State" where
  "setDissipatedEnergy impl s energy =
     (if energy \<ge> 0 then updDissipatedEnergyVar impl s energy
      else (Some ErrorCheck, s))"

section \<open>The friction curve\<close>

definition step5 :: "real \<Rightarrow> error + real" where
  "step5 x =
     (if 0 \<le> x \<and> x \<le> 1
      then (let x3 = x * x * x in Inr (x3 * (10 + x * (6 * x - 15))))
      else Inl AssertionFailed)"

definition step5d :: "real \<Rightarrow> real \<Rightarrow> real \<Rightarrow> error + real" where
  "step5d y yd x =
     (if 0 \<le> x \<and> x \<le> 1
      then (let a = 6 * y - 3 * yd; b = - 15 * y + 7 * yd; c = 10 * y - 4 * yd;
                x3 = x * x * x
            in Inr (x3 * (c + x * (b + x * a))))
      else Inl AssertionFailed)"

definition stribeck :: "real \<Rightarrow> real \<Rightarrow> real \<Rightarrow> real \<Rightarrow> error + real" where
  "stribeck us ud uv v =
     (if v \<le> 1 then
        (case step5 v of Inl e \<Rightarrow> Inl e | Inr s \<Rightarrow> Inr (us * s))
      else if v \<le> 3 then
        (case step5 ((v - 1) / 2) of Inl e \<Rightarrow> Inl e | Inr s \<Rightarrow> Inr (us - (us - ud) * s))
      else if v \<le> 4 then
        (case step5d uv uv (v - 3) of Inl e \<Rightarrow> Inl e | Inr s \<Rightarrow> Inr (ud + s))
      else Inr (ud + uv * (v - 3)))"

text \<open>The value of a computation that did not fail, for statements about it as a function.\<close>

definition result_or :: "'a \<Rightarrow> error + 'a \<Rightarrow> 'a" where
  "result_or d r = (case r of Inl e \<Rightarrow> d | Inr x \<Rightarrow> x)"

section \<open>The Hertz, Hunt-Crossley and friction generator\<close>

text \<open>
  The locals of \<^verbatim>\<open>HertzCircular::calcContactForce\<close> between the depth test and the
  yanking test, in the order the code computes them. Both material references are read
  through \<^verbatim>\<open>getSurface1()\<close>, as the source has it.
\<close>

record HertzLocals =
  loc_mat1 :: ContactMaterial
  loc_mat2 :: ContactMaterial
  loc_contactPt :: Vec3
  loc_k :: real
  loc_c :: real
  loc_fH :: real
  loc_xdot :: real
  loc_velTangent :: Vec3
  loc_fHC :: real
  loc_fNormal :: real

definition HertzCircular_locals ::
  "CompliantContactSubsystemImpl \<Rightarrow> State \<Rightarrow> Contact \<Rightarrow> HertzLocals" where
  "HertzCircular_locals subsys state contact =
     (let tracker = getContactTrackerSubsystem subsys;
          mobod1 = getMobilizedBody tracker (getSurface1 contact);
          mobod2 = getMobilizedBody tracker (getSurface2 contact);
          mat1 = getContactSurfaceMaterial tracker (getSurface1 contact);
          mat2 = getContactSurfaceMaterial tracker (getSurface1 contact);
          k1 = getStiffness23 mat1; k2 = getStiffness23 mat2;
          c1 = getDissipation mat1; c2 = getDissipation mat2;
          s1 = k2 / (k1 + k2);
          s2 = 1 - s1;
          x = getDepth contact;
          normal = getNormal contact;
          origin = getOrigin contact;
          contactPt = vec_add origin (vec_scale (x * (0.5 - s1)) normal);
          k = k1 * s1;
          c = c1 * s1 + c2 * s2;
          R = getEffectiveRadius contact;
          fH = (4 / 3) * k * x * sqrt (R * k * x);
          station1 = findStationAtGroundPoint state mobod1 contactPt;
          station2 = findStationAtGroundPoint state mobod2 contactPt;
          vel1 = findStationVelocityInGround state mobod1 station1;
          vel2 = findStationVelocityInGround state mobod2 station2;
          vel = vec_sub vel1 vel2;
          xdot = dot vel normal;
          velNormal = vec_scale xdot normal;
          velTangent = vec_sub vel velNormal;
          fHC = fH * 1.5 * c * xdot;
          fNormal = fH + fHC
      in \<lparr>loc_mat1 = mat1, loc_mat2 = mat2, loc_contactPt = contactPt, loc_k = k, loc_c = c,
          loc_fH = fH, loc_xdot = xdot, loc_velTangent = velTangent, loc_fHC = fHC,
          loc_fNormal = fNormal\<rparr>)"

text \<open>
  The friction block: the friction force and its power, both zero unless the squared slip
  speed exceeds the square of \<^verbatim>\<open>SignificantReal\<close>, a constant of the numerics library
  that is a parameter here.
\<close>

definition HertzCircular_friction ::
  "real \<Rightarrow> CompliantContactSubsystemImpl \<Rightarrow> HertzLocals \<Rightarrow> error + (Vec3 \<times> real)" where
  "HertzCircular_friction SignificantReal subsys loc =
     (let mat1 = loc_mat1 loc; mat2 = loc_mat2 loc;
          velTangent = loc_velTangent loc; fNormal = loc_fNormal loc;
          vslipSq = normSqr velTangent
      in if vslipSq > square SignificantReal then
           (let vslip = sqrt vslipSq;
                us1 = getStaticFriction mat1; us2 = getStaticFriction mat2;
                ud1 = getDynamicFriction mat1; ud2 = getDynamicFriction mat2;
                uv1 = getViscousFriction mat1; uv2 = getViscousFriction mat2;
                vtrans = getTransitionVelocity subsys;
                ooVtrans = getOOTransitionVelocity subsys;
                us0 = 2 * us1 * us2; us = (if us0 \<noteq> 0 then us0 / (us1 + us2) else us0);
                ud0 = 2 * ud1 * ud2; ud = (if ud0 \<noteq> 0 then ud0 / (ud1 + ud2) else ud0);
                uv0 = 2 * uv1 * uv2; uv = (if uv0 \<noteq> 0 then uv0 / (uv1 + uv2) else uv0)
            in if \<not> us \<ge> ud then Inl AssertionFailed
               else
                 (let v = vslip * ooVtrans in
                  case stribeck us ud (uv * vtrans) v of
                    Inl e \<Rightarrow> Inl e
                  | Inr mu \<Rightarrow>
                      (let fFriction = fNormal * mu
                       in Inr (vec_scale (fFriction / vslip) velTangent, fFriction * vslip))))
         else Inr (Vec3_zero, 0))"

definition HertzCircular_calcContactForce ::
  "real \<Rightarrow> CompliantContactSubsystemImpl \<Rightarrow> State \<Rightarrow> Contact \<Rightarrow> SpatialVec \<Rightarrow> SpatialVec
     \<Rightarrow> ContactForce \<Rightarrow> error + ContactForce" where
  "HertzCircular_calcContactForce SignificantReal subsys state overlap V_GS1 V_GS2 contactForce =
     (if getTypeId overlap \<noteq> CircularPointContactType then Inl AssertionFailed
      else
        (let contact = overlap; depth = getDepth contact in
         if depth \<le> 0 then Inr (ContactForce_clear contactForce)
         else
           (let loc = HertzCircular_locals subsys state contact;
                x = getDepth contact;
                normal = getNormal contact;
                fH = loc_fH loc; fHC = loc_fHC loc; xdot = loc_xdot loc;
                fNormal = loc_fNormal loc;
                contactForce1 = contactForce\<lparr>m_contactId := getContactId contact,
                                              m_centerOfPressureInG := loc_contactPt loc\<rparr>
            in if fNormal \<le> 0 then
                 Inr (contactForce1\<lparr>m_forceOnSurface2InG := (Vec3_zero, Vec3_zero),
                                     m_potentialEnergy := 0,
                                     m_powerLoss := 0\<rparr>)
               else
                 (let forceH = vec_scale fH normal;
                      potentialEnergy = (2 / 5) * fH * x;
                      forceHC = vec_scale fHC normal;
                      powerHC = fHC * xdot
                  in case HertzCircular_friction SignificantReal subsys loc of
                       Inl e \<Rightarrow> Inl e
                     | Inr (forceFriction, powerFriction) \<Rightarrow>
                         (let forceLoss = vec_add forceHC forceFriction;
                              forceTotal = vec_add forceH forceLoss
                          in Inr (contactForce1\<lparr>m_forceOnSurface2InG := (Vec3_zero, forceTotal),
                                                 m_potentialEnergy := potentialEnergy,
                                                 m_powerLoss := powerHC + powerFriction\<rparr>))))))"

text \<open>The virtual call: the class of the object the pointer addresses decides.\<close>

definition calcContactForce ::
  "real \<Rightarrow> CompliantContactSubsystemImpl \<Rightarrow> generator_ptr \<Rightarrow> State \<Rightarrow> Contact
     \<Rightarrow> SpatialVec \<Rightarrow> SpatialVec \<Rightarrow> ContactForce \<Rightarrow> error + ContactForce" where
  "calcContactForce SignificantReal subsys generator state contact V_GS1 V_GS2 contactForce =
     (case freeStore subsys generator of
        None \<Rightarrow> Inl DanglingPointer
      | Some obj \<Rightarrow>
          (case generatorClass obj of
             HertzCircular \<Rightarrow>
               HertzCircular_calcContactForce SignificantReal subsys state contact V_GS1 V_GS2
                 contactForce
           | ExternalGenerator f \<Rightarrow> f state contact V_GS1 V_GS2 contactForce))"

section \<open>The force and potential-energy caches\<close>

text \<open>
  The loop of \<^verbatim>\<open>ensureForceCacheValid\<close> over the active contacts. A new record is pushed,
  the generator fills it, and an invalid one is popped again. A failure leaves the array
  as it stands at that moment.
\<close>

fun forceCacheLoop ::
  "real \<Rightarrow> CompliantContactSubsystemImpl \<Rightarrow> ContactForce \<Rightarrow> State \<Rightarrow> Contact list
     \<Rightarrow> ContactForce list \<Rightarrow> error option \<times> ContactForce list" where
  "forceCacheLoop SignificantReal impl uninit state [] forces = (None, forces)"
| "forceCacheLoop SignificantReal impl uninit state (contact # rest) forces =
     (let tracker = m_tracker impl;
          surf1 = getSurface1 contact;
          surf2 = getSurface2 contact;
          mobod1 = getMobilizedBody tracker surf1;
          mobod2 = getMobilizedBody tracker surf2;
          V_GS1 = findFrameVelocityInGround state mobod1 (getContactSurfaceTransform tracker surf1);
          V_GS2 = findFrameVelocityInGround state mobod2 (getContactSurfaceTransform tracker surf2)
      in case getForceGenerator impl (getTypeId contact) of
           Inl e \<Rightarrow> (Some e, forces)
         | Inr generator \<Rightarrow>
             (let pushed = forces @ [ContactForce_ctor uninit] in
              case calcContactForce SignificantReal impl generator state contact V_GS1 V_GS2
                     (last pushed) of
                Inl e \<Rightarrow> (Some e, pushed)
              | Inr back \<Rightarrow>
                  (let filled = butlast pushed @ [back] in
                   if \<not> ContactForce_isValid (last filled)
                   then forceCacheLoop SignificantReal impl uninit state rest (butlast filled)
                   else forceCacheLoop SignificantReal impl uninit state rest filled)))"

definition ensureForceCacheValid ::
  "real \<Rightarrow> CompliantContactSubsystemImpl \<Rightarrow> ContactForce \<Rightarrow> State \<Rightarrow> error option \<times> State" where
  "ensureForceCacheValid SignificantReal impl uninit state =
     (if isForceCacheValid impl state then (None, state)
      else if \<not> stage_ge (getStage state) StageVelocity then (Some StageViolation, state)
      else
        (case forceCacheLoop SignificantReal impl uninit state (getActiveContacts state) [] of
           (Some e, forces) \<Rightarrow> (Some e, state\<lparr>forceCache := forces\<rparr>)
         | (None, forces) \<Rightarrow> (None, state\<lparr>forceCache := forces, forceCacheRealized := True\<rparr>)))"

text \<open>
  The Position-stage loop of \<^verbatim>\<open>ensurePotentialEnergyCacheValid\<close>: each generator is
  called with both surface velocities zero on a fresh record, and only the energy field
  of what comes back is added up.
\<close>

fun potentialEnergyLoop ::
  "real \<Rightarrow> CompliantContactSubsystemImpl \<Rightarrow> ContactForce \<Rightarrow> State \<Rightarrow> Contact list
     \<Rightarrow> real \<Rightarrow> error option \<times> real" where
  "potentialEnergyLoop SignificantReal impl uninit state [] pe = (None, pe)"
| "potentialEnergyLoop SignificantReal impl uninit state (contact # rest) pe =
     (case getForceGenerator impl (getTypeId contact) of
        Inl e \<Rightarrow> (Some e, pe)
      | Inr generator \<Rightarrow>
          (case calcContactForce SignificantReal impl generator state contact
                  (Vec3_zero, Vec3_zero) (Vec3_zero, Vec3_zero) (ContactForce_ctor uninit) of
             Inl e \<Rightarrow> (Some e, pe)
           | Inr force \<Rightarrow>
               potentialEnergyLoop SignificantReal impl uninit state rest
                 (pe + m_potentialEnergy force)))"

definition ensurePotentialEnergyCacheValid ::
  "real \<Rightarrow> CompliantContactSubsystemImpl \<Rightarrow> ContactForce \<Rightarrow> State \<Rightarrow> error option \<times> State" where
  "ensurePotentialEnergyCacheValid SignificantReal impl uninit state =
     (if isPotentialEnergyCacheValid impl state then (None, state)
      else if \<not> stage_ge (getStage state) StagePosition then (Some StageViolation, state)
      else
        (let state0 = state\<lparr>potEnergyCache := Some 0\<rparr> in
         if stage_ge (getStage state0) StageVelocity then
           (case ensureForceCacheValid SignificantReal impl uninit state0 of
              (Some e, state1) \<Rightarrow> (Some e, state1)
            | (None, state1) \<Rightarrow>
                (None, state1\<lparr>potEnergyCache :=
                                 Some (foldl (\<lambda>pe f. pe + m_potentialEnergy f) 0 (forceCache state1)),
                               potEnergyCacheRealized := True\<rparr>))
         else
           (case potentialEnergyLoop SignificantReal impl uninit state0 (getActiveContacts state0) 0 of
              (Some e, pe) \<Rightarrow> (Some e, state0\<lparr>potEnergyCache := Some pe\<rparr>)
            | (None, pe) \<Rightarrow>
                (None, state0\<lparr>potEnergyCache := Some pe, potEnergyCacheRealized := True\<rparr>))))"

definition calcPotentialEnergy ::
  "real \<Rightarrow> CompliantContactSubsystemImpl \<Rightarrow> ContactForce \<Rightarrow> State
     \<Rightarrow> error option \<times> State \<times> real option" where
  "calcPotentialEnergy SignificantReal impl uninit state =
     (case ensurePotentialEnergyCacheValid SignificantReal impl uninit state of
        (Some e, state1) \<Rightarrow> (Some e, state1, None)
      | (None, state1) \<Rightarrow> (None, state1, potEnergyCache state1))"






section \<open>Binary64 arithmetic\<close>

text \<open>
  \<^verbatim>\<open>Real\<close> is \<^verbatim>\<open>double\<close>. A binary64 value is a finite number (\<open>Finite 0\<close> is \<open>+0\<close>), the
  negative zero, an infinity or NaN. The finite values of the format are the reals
  \<open>m * 2 ^ e\<close> with \<open>\<bar>m\<bar> < 2 ^ 53\<close> and \<open>- 1074 \<le> e \<le> 971\<close>, and \<open>Finite x\<close> stands for a
  value of the format when \<open>x\<close> is one of them. \<open>round_to_double\<close> maps a real to the
  nearest of them, ties to the even significand, a magnitude of at least
  \<open>2 ^ 1024 - 2 ^ 970\<close> to the infinity of its sign, and a nonzero magnitude that rounds to
  nothing to the zero of its sign. Division, multiplication and the comparison
  \<^verbatim>\<open>>\<close> follow IEEE 754: the exact result rounded, with the usual cases for zeros,
  infinities and NaN.
\<close>

datatype Double = Finite real | NegZero | PosInf | NegInf | NaN

definition double_is_nan :: "Double \<Rightarrow> bool" where
  "double_is_nan d = (d = NaN)"

definition double_is_inf :: "Double \<Rightarrow> bool" where
  "double_is_inf d = (d = PosInf \<or> d = NegInf)"

definition double_is_zero :: "Double \<Rightarrow> bool" where
  "double_is_zero d = (d = Finite 0 \<or> d = NegZero)"

fun double_negative :: "Double \<Rightarrow> bool" where
  "double_negative (Finite v) = (v < 0)"
| "double_negative NegZero = True"
| "double_negative PosInf = False"
| "double_negative NegInf = True"
| "double_negative NaN = False"

fun double_value :: "Double \<Rightarrow> real" where
  "double_value (Finite v) = v"
| "double_value d = 0"

definition signed_inf :: "bool \<Rightarrow> Double" where
  "signed_inf negative = (if negative then NegInf else PosInf)"

definition signed_zero :: "bool \<Rightarrow> Double" where
  "signed_zero negative = (if negative then NegZero else Finite 0)"

definition round_nearest_even :: "real \<Rightarrow> int" where
  "round_nearest_even q =
     (let f = \<lfloor>q\<rfloor>; r = q - of_int f
      in if r < 1 / 2 then f else if 1 / 2 < r then f + 1 else if even f then f else f + 1)"

definition round_to_double :: "real \<Rightarrow> Double" where
  "round_to_double x =
     (if x = 0 then Finite 0
      else if 2 ^ 1024 - 2 ^ 970 \<le> \<bar>x\<bar> then signed_inf (x < 0)
      else
        (let e = max \<lfloor>log 2 \<bar>x\<bar>\<rfloor> (- 1022);
             ulp = 2 powr (of_int e - 52);
             m = round_nearest_even (\<bar>x\<bar> / ulp)
         in if m = 0 then signed_zero (x < 0) else Finite (sgn x * of_int m * ulp)))"

definition double_div :: "Double \<Rightarrow> Double \<Rightarrow> Double" where
  "double_div a b =
     (let negative = (double_negative a \<noteq> double_negative b)
      in if double_is_nan a \<or> double_is_nan b then NaN
         else if double_is_inf a then (if double_is_inf b then NaN else signed_inf negative)
         else if double_is_inf b then signed_zero negative
         else if double_is_zero b then (if double_is_zero a then NaN else signed_inf negative)
         else if double_is_zero a then signed_zero negative
         else round_to_double (double_value a / double_value b))"

definition double_mult :: "Double \<Rightarrow> Double \<Rightarrow> Double" where
  "double_mult a b =
     (let negative = (double_negative a \<noteq> double_negative b)
      in if double_is_nan a \<or> double_is_nan b then NaN
         else if double_is_inf a \<or> double_is_inf b then
           (if double_is_zero a \<or> double_is_zero b then NaN else signed_inf negative)
         else if double_is_zero a \<or> double_is_zero b then signed_zero negative
         else round_to_double (double_value a * double_value b))"

fun double_gt :: "Double \<Rightarrow> Double \<Rightarrow> bool" where
  "double_gt NaN b = False"
| "double_gt a NaN = False"
| "double_gt PosInf b = (b \<noteq> PosInf)"
| "double_gt a PosInf = False"
| "double_gt a NegInf = (a \<noteq> NegInf)"
| "double_gt NegInf b = False"
| "double_gt a b = (double_value b < double_value a)"

text \<open>
  The two members the setter writes, as the pair
  \<open>(m_transitionVelocity, m_ooTransitionVelocity)\<close>, and the two functions of the source
  on them: the assignments of the implementation class, and the public setter with its
  check \<^verbatim>\<open>vt > 0\<close>, which NaN fails as well.
\<close>

definition Impl_setTransitionVelocity_binary64 :: "Double \<Rightarrow> Double \<times> Double" where
  "Impl_setTransitionVelocity_binary64 vt = (vt, double_div (Finite 1) vt)"

definition setTransitionVelocity_binary64 ::
  "Double \<times> Double \<Rightarrow> Double \<Rightarrow> error option \<times> (Double \<times> Double)" where
  "setTransitionVelocity_binary64 members vt =
     (if double_gt vt (Finite 0) then (None, Impl_setTransitionVelocity_binary64 vt)
      else (Some ErrorCheck, members))"







section \<open>Concrete inputs\<close>

text \<open>
  A small scene for evaluating the definitions: two surfaces, \<open>1\<close> and \<open>2\<close>, each on the
  body of the same number, bodies whose every material point moves with one given
  velocity, and one circular point contact between the surfaces.
\<close>

definition example_material :: "real \<Rightarrow> real \<Rightarrow> ContactMaterial" where
  "example_material k c =
     \<lparr>getStiffness23 = k, getDissipation = c, getStaticFriction = 8 / 10,
      getDynamicFriction = 1 / 2, getViscousFriction = 1 / 10\<rparr>"

definition example_tracker :: "ContactMaterial \<Rightarrow> ContactMaterial \<Rightarrow> ContactTrackerSubsystem" where
  "example_tracker mat1 mat2 =
     \<lparr>getMobilizedBody = (\<lambda>surf. surf),
      getContactSurfaceTransform = (\<lambda>surf. (((1, 0, 0), (0, 1, 0), (0, 0, 1)), (0, 0, 0))),
      getContactSurfaceMaterial = (\<lambda>surf. if surf = 1 then mat1 else mat2)\<rparr>"

definition example_contact :: "real \<Rightarrow> Contact" where
  "example_contact depth =
     \<lparr>getContactId = ContactId 7, getTypeId = CircularPointContactType,
      getSurface1 = 1, getSurface2 = 2, getDepth = depth,
      getNormal = (0, 0, 1), getOrigin = (0, 0, 0), getEffectiveRadius = 1\<rparr>"

definition example_state :: "Stage \<Rightarrow> Vec3 \<Rightarrow> Vec3 \<Rightarrow> Contact list \<Rightarrow> State" where
  "example_state stage v1 v2 contacts =
     \<lparr>getStage = stage,
      getActiveContacts = contacts,
      mobodKinematics =
        (\<lambda>mobod. \<lparr>bodyOriginLocation = (0, 0, 0),
                   stationAtGroundPoint = (\<lambda>p. p),
                   stationVelocityInGround = (\<lambda>s. if mobod = 1 then v1 else v2),
                   frameVelocityInGround = (\<lambda>X. ((0, 0, 0), if mobod = 1 then v1 else v2))\<rparr>),
      rigidBodyForces = (\<lambda>mobod. ((0, 0, 0), (0, 0, 0))),
      getZ = [],
      getZDot = [],
      cacheTopologyVersion = 0,
      forceCache = [],
      forceCacheRealized = False,
      potEnergyCache = None,
      potEnergyCacheRealized = False\<rparr>"

definition example_uninit :: ContactForce where
  "example_uninit =
     \<lparr>m_contactId = InvalidContactId, m_centerOfPressureInG = (0, 0, 0),
      m_forceOnSurface2InG = ((0, 0, 0), (0, 0, 0)),
      m_potentialEnergy = - 1, m_powerLoss = - 1\<rparr>"

definition example_generator :: "ContactTypeId \<Rightarrow> ContactForceGenerator" where
  "example_generator type =
     \<lparr>generatorClass = ExternalGenerator (\<lambda>state contact V1 V2 f. Inr (ContactForce_clear f)),
      getContactTypeId = type,
      m_compliantContactSubsys = None\<rparr>"

definition example_subsystem :: "ContactTrackerSubsystem \<Rightarrow> CompliantContactSubsystemImpl" where
  "example_subsystem tracker =
     result_or (CompliantContactSubsystemImpl_ctor tracker)
       (CompliantContactSubsystem_ctor 0 tracker
          (example_generator (OtherContactType 1)) (example_generator (OtherContactType 0)))"

text \<open>
  The constructed subsystem of the scene, and the same with two more generator objects
  allocated, both for the contact type \<open>OtherContactType 1\<close>, at the addresses \<open>3\<close> and \<open>4\<close>.
  The two new generators answer every contact with a valid record of a fixed potential
  energy, \<open>1\<close> and \<open>2\<close>, so that their results can be told apart from each other and
  from those of the generator the constructor registered for that type, which answers
  with an invalid record.
\<close>

definition example_scene :: CompliantContactSubsystemImpl where
  "example_scene =
     example_subsystem (example_tracker (example_material 100 0) (example_material 400 0))"

definition example_constant_generator :: "ContactTypeId \<Rightarrow> real \<Rightarrow> ContactForceGenerator" where
  "example_constant_generator type pe =
     \<lparr>generatorClass =
        ExternalGenerator
          (\<lambda>state contact V1 V2 f.
             Inr \<lparr>m_contactId = getContactId contact, m_centerOfPressureInG = getOrigin contact,
                  m_forceOnSurface2InG = ((0, 0, 0), (0, 0, 0)),
                  m_potentialEnergy = pe, m_powerLoss = 0\<rparr>),
      getContactTypeId = type,
      m_compliantContactSubsys = None\<rparr>"

definition example_two_new :: CompliantContactSubsystemImpl where
  "example_two_new =
     snd (new_generator
            (snd (new_generator example_scene (example_constant_generator (OtherContactType 1) 1)))
            (example_constant_generator (OtherContactType 1) 2))"

definition example_other_contact :: Contact where
  "example_other_contact = (example_contact (1 / 100))\<lparr>getTypeId := OtherContactType 1\<rparr>"

text \<open>
  The same scene with both materials of stiffness \<open>200\<close> and dissipation \<open>1\<close>, and the two
  states the evaluations below use: one realized through Velocity stage with both bodies
  at rest, one realized through Position stage only, in which body \<open>1\<close> moves away from
  body \<open>2\<close> along the contact normal.
\<close>

definition example_damped_scene :: CompliantContactSubsystemImpl where
  "example_damped_scene =
     example_subsystem (example_tracker (example_material 200 1) (example_material 200 1))"

definition example_rest_state :: "Contact list \<Rightarrow> State" where
  "example_rest_state contacts = example_state StageVelocity (0, 0, 0) (0, 0, 0) contacts"

definition example_separating_state :: "Stage \<Rightarrow> Contact list \<Rightarrow> State" where
  "example_separating_state stage contacts = example_state stage (0, 0, - 1) (0, 0, 0) contacts"


text \<open>A value for the library's \<^verbatim>\<open>SignificantReal\<close> in the evaluations that reach the friction block.\<close>

definition example_significant :: real where
  "example_significant = 1 / 10 ^ 14"

text \<open>
  A state whose topology has been realized under \<open>example_two_new\<close>, with one active
  contact of type \<open>OtherContactType 1\<close>, and the same state after its force cache has been
  built.
\<close>

definition example_allocated_state :: State where
  "example_allocated_state =
     snd (realizeSubsystemTopologyImpl example_two_new
            (example_state StageVelocity (0, 0, 0) (0, 0, 0) [example_other_contact]))"

definition example_cached_state :: State where
  "example_cached_state =
     snd (ensureForceCacheValid example_significant example_two_new example_uninit
            example_allocated_state)"






section \<open>The friction curve is continuous\<close>

lemma stribeck_seg1:
  "0 \<le> v \<Longrightarrow> v \<le> 1 \<Longrightarrow>
   stribeck us ud uv v = Inr (us * (v * v * v * (10 + v * (6 * v - 15))))"
  by (simp add: stribeck_def step5_def)

lemma stribeck_seg2:
  "1 \<le> v \<Longrightarrow> v \<le> 3 \<Longrightarrow>
   stribeck us ud uv v =
     Inr (us - (us - ud) * (((v - 1) / 2) * ((v - 1) / 2) * ((v - 1) / 2)
            * (10 + ((v - 1) / 2) * (6 * ((v - 1) / 2) - 15))))"
  by (cases "v = 1") (simp_all add: stribeck_def step5_def)

lemma stribeck_seg3:
  "3 \<le> v \<Longrightarrow> v \<le> 4 \<Longrightarrow>
   stribeck us ud uv v =
     Inr (ud + (v - 3) * (v - 3) * (v - 3)
            * ((10 * uv - 4 * uv)
               + (v - 3) * ((- 15 * uv + 7 * uv) + (v - 3) * (6 * uv - 3 * uv))))"
  by (cases "v = 3") (simp_all add: stribeck_def step5_def step5d_def)

lemma stribeck_seg4: "4 \<le> v \<Longrightarrow> stribeck us ud uv v = Inr (ud + uv * (v - 3))"
  by (cases "v = 4") (simp_all add: stribeck_def step5_def step5d_def)

lemma stribeck_cont_on: "continuous_on {0..} (\<lambda>v. result_or 0 (stribeck us ud uv v))"
proof -
  let ?f = "\<lambda>v. result_or 0 (stribeck us ud uv v)"
  let ?g1 = "\<lambda>v::real. us * (v * v * v * (10 + v * (6 * v - 15)))"
  let ?g2 = "\<lambda>v::real. us - (us - ud) * (((v - 1) / 2) * ((v - 1) / 2) * ((v - 1) / 2)
            * (10 + ((v - 1) / 2) * (6 * ((v - 1) / 2) - 15)))"
  let ?g3 = "\<lambda>v::real. ud + (v - 3) * (v - 3) * (v - 3)
            * ((10 * uv - 4 * uv)
               + (v - 3) * ((- 15 * uv + 7 * uv) + (v - 3) * (6 * uv - 3 * uv)))"
  let ?g4 = "\<lambda>v::real. ud + uv * (v - 3)"
  have "continuous_on {0..1} ?f \<longleftrightarrow> continuous_on {0..1} ?g1"
    by (rule continuous_on_cong) (simp_all add: stribeck_seg1 result_or_def)
  moreover have "continuous_on {0..1} ?g1"
    by (intro continuous_intros)
  ultimately have c1: "continuous_on {0..1} ?f"
    by simp
  have "continuous_on {1..3} ?f \<longleftrightarrow> continuous_on {1..3} ?g2"
    by (rule continuous_on_cong) (simp_all add: stribeck_seg2 result_or_def)
  moreover have "continuous_on {1..3} ?g2"
    by (intro continuous_intros) simp_all
  ultimately have c2: "continuous_on {1..3} ?f"
    by simp
  have "continuous_on {3..4} ?f \<longleftrightarrow> continuous_on {3..4} ?g3"
    by (rule continuous_on_cong) (simp_all add: stribeck_seg3 result_or_def)
  moreover have "continuous_on {3..4} ?g3"
    by (intro continuous_intros)
  ultimately have c3: "continuous_on {3..4} ?f"
    by simp
  have "continuous_on {4..} ?f \<longleftrightarrow> continuous_on {4..} ?g4"
    by (rule continuous_on_cong) (simp_all add: stribeck_seg4 result_or_def)
  moreover have "continuous_on {4..} ?g4"
    by (intro continuous_intros)
  ultimately have c4: "continuous_on {4..} ?f"
    by simp
  have "continuous_on ({0..1} \<union> {1..3}) ?f"
    by (rule continuous_on_closed_Un) (simp_all add: c1 c2)
  then have "continuous_on (({0..1} \<union> {1..3}) \<union> {3..4}) ?f"
    by (rule continuous_on_closed_Un [rotated 2]) (simp_all add: c3 closed_Un)
  then have "continuous_on ((({0..1} \<union> {1..3}) \<union> {3..4}) \<union> {4..}) ?f"
    by (rule continuous_on_closed_Un [rotated 2]) (simp_all add: c4 closed_Un)
  moreover have "((({0..1} \<union> {1..3}) \<union> {3..4}) \<union> {4..}) = {0::real..}"
    by auto
  ultimately show ?thesis
    by simp
qed

lemma stribeck_isCont:
  assumes "0 < v"
  shows "isCont (\<lambda>v. result_or 0 (stribeck us ud uv v)) v"
proof -
  have "continuous_on {0<..} (\<lambda>v. result_or 0 (stribeck us ud uv v))"
    by (rule continuous_on_subset [OF stribeck_cont_on]) auto
  then show ?thesis
    using assms by (simp add: continuous_on_eq_continuous_at)
qed

text \<open>
  Claim C6. For all coefficients (in particular for \<open>us \<ge> ud \<ge> 0\<close> and \<open>uv \<ge> 0\<close>) the
  friction function \<open>stribeck\<close> is \<open>0\<close> at \<open>v = 0\<close>; at the segment boundaries \<open>v = 1\<close>,
  \<open>v = 3\<close> and \<open>v = 4\<close> it takes the values \<open>us\<close>, \<open>ud\<close> and \<open>ud + uv\<close>, and as a function of
  \<open>v\<close> it is continuous at each of these three points, so the formula of the segment that
  ends there and the formula of the segment that starts there agree.
\<close>

theorem stribeck_continuous_at_boundaries:
  "stribeck us ud uv 0 = Inr 0 \<and>
   stribeck us ud uv 1 = Inr us \<and>
   stribeck us ud uv 3 = Inr ud \<and>
   stribeck us ud uv 4 = Inr (ud + uv) \<and>
   isCont (\<lambda>v. result_or 0 (stribeck us ud uv v)) 1 \<and>
   isCont (\<lambda>v. result_or 0 (stribeck us ud uv v)) 3 \<and>
   isCont (\<lambda>v. result_or 0 (stribeck us ud uv v)) 4"
  by (simp add: stribeck_isCont) (simp add: stribeck_def step5_def step5d_def)

section \<open>The generator registry replaces, never duplicates\<close>

lemma filter_key_absent:
  "k \<notin> fst ` set al \<Longrightarrow> filter (\<lambda>e. fst e = k) al = []"
  by (induction al) auto

lemma filter_key_update:
  "distinct (map fst al) \<Longrightarrow> k \<in> fst ` set al \<Longrightarrow>
   filter (\<lambda>e. fst e = k) (AList.update k v al) = [(k, v)]"
proof (induction al)
  case Nil
  then show ?case by simp
next
  case (Cons a al)
  show ?case
  proof (cases "fst a = k")
    case True
    with Cons.prems have "k \<notin> fst ` set al" by auto
    then have "filter (\<lambda>e. fst e = k) al = []" by (rule filter_key_absent)
    with True show ?thesis by (cases a) simp
  next
    case False
    with Cons show ?thesis by (cases a) auto
  qed
qed

lemma adoptForceGenerator_insert:
  assumes "freeStore impl g = Some obj"
    and "map_of (m_generators impl) (getContactTypeId obj) = None"
  shows "adoptForceGenerator impl subsys (Some g) =
     Inr (impl\<lparr>freeStore := (freeStore impl)(g \<mapsto> obj\<lparr>m_compliantContactSubsys := Some subsys\<rparr>),
               subsystemTopologyVersion := Suc (subsystemTopologyVersion impl),
               m_generators := m_generators impl @ [(getContactTypeId obj, g)]\<rparr>)"
  using assms
  by (simp add: adoptForceGenerator_def setCompliantContactSubsystem_def
        invalidateSubsystemTopologyCache_def Let_def)

lemma adoptForceGenerator_replace:
  assumes "freeStore impl g = Some obj"
    and "map_of (m_generators impl) (getContactTypeId obj) = Some old"
    and "old \<in> dom (freeStore impl)"
  shows "adoptForceGenerator impl subsys (Some g) =
     Inr (impl\<lparr>freeStore :=
                 ((freeStore impl)(g \<mapsto> obj\<lparr>m_compliantContactSubsys := Some subsys\<rparr>))(old := None),
               subsystemTopologyVersion := Suc (subsystemTopologyVersion impl),
               m_generators := AList.update (getContactTypeId obj) g (m_generators impl)\<rparr>)"
  using assms
  by (auto simp: adoptForceGenerator_def setCompliantContactSubsystem_def
        invalidateSubsystemTopologyCache_def delete_generator_def Let_def)

lemma adoptForceGenerator_invalidates:
  "adoptForceGenerator impl subsys g = Inr impl' \<Longrightarrow>
   subsystemTopologyVersion impl' = Suc (subsystemTopologyVersion impl)"
  by (auto simp: adoptForceGenerator_def setCompliantContactSubsystem_def
        invalidateSubsystemTopologyCache_def delete_generator_def Let_def
      split: option.splits sum.splits if_splits)

lemma adoptDefaultForceGenerator_invalidates:
  "adoptDefaultForceGenerator impl subsys g = Inr impl' \<Longrightarrow>
   subsystemTopologyVersion impl' = Suc (subsystemTopologyVersion impl)"
  by (auto simp: adoptDefaultForceGenerator_def setCompliantContactSubsystem_def
        invalidateSubsystemTopologyCache_def delete_generator_def Let_def
      split: option.splits sum.splits if_splits)

lemma adoptForceGenerator_keeps_default:
  "adoptForceGenerator impl subsys g = Inr impl' \<Longrightarrow>
   m_defaultGenerator impl' = m_defaultGenerator impl"
  by (auto simp: adoptForceGenerator_def setCompliantContactSubsystem_def
        invalidateSubsystemTopologyCache_def delete_generator_def Let_def
      split: option.splits sum.splits if_splits)

lemma ctor_result:
  "CompliantContactSubsystem_ctor subsys tracker ef dn =
     Inr ((CompliantContactSubsystemImpl_ctor tracker)
       \<lparr>m_generators :=
          (if getContactTypeId ef = CircularPointContactType
           then [(CircularPointContactType, 1)]
           else [(CircularPointContactType, 0), (getContactTypeId ef, 1)]),
        m_defaultGenerator := Some 2,
        freeStore :=
          (if getContactTypeId ef = CircularPointContactType
           then [1 \<mapsto> ef\<lparr>m_compliantContactSubsys := Some subsys\<rparr>,
                 2 \<mapsto> dn\<lparr>m_compliantContactSubsys := Some subsys\<rparr>]
           else [0 \<mapsto> HertzCircular_ctor\<lparr>m_compliantContactSubsys := Some subsys\<rparr>,
                 1 \<mapsto> ef\<lparr>m_compliantContactSubsys := Some subsys\<rparr>,
                 2 \<mapsto> dn\<lparr>m_compliantContactSubsys := Some subsys\<rparr>]),
        subsystemTopologyVersion := 3,
        nextFree := 3\<rparr>)"
  by (auto simp: CompliantContactSubsystem_ctor_def CompliantContactSubsystemImpl_ctor_def
       new_generator_def adoptForceGenerator_def adoptDefaultForceGenerator_def
       setCompliantContactSubsystem_def invalidateSubsystemTopologyCache_def
       delete_generator_def HertzCircular_ctor_def Let_def fun_upd_twist
       numeral_2_eq_2 numeral_3_eq_3
       intro!: ext)

lemma example_scene_eq:
  "example_scene =
     \<lparr>m_tracker = example_tracker (example_material 100 0) (example_material 400 0),
      m_transitionVelocity = 1 / 100,
      m_ooTransitionVelocity = 100,
      m_generators = [(CircularPointContactType, 0), (OtherContactType 1, 1)],
      m_defaultGenerator = Some 2,
      m_dissipatedEnergyIx = None,
      subsystemTopologyVersion = 3,
      freeStore =
        [0 \<mapsto> HertzCircular_ctor\<lparr>m_compliantContactSubsys := Some 0\<rparr>,
         1 \<mapsto> (example_generator (OtherContactType 1))\<lparr>m_compliantContactSubsys := Some 0\<rparr>,
         2 \<mapsto> (example_generator (OtherContactType 0))\<lparr>m_compliantContactSubsys := Some 0\<rparr>],
      nextFree = 3\<rparr>"
  by (simp add: example_scene_def example_subsystem_def ctor_result result_or_def
        CompliantContactSubsystemImpl_ctor_def example_generator_def)

lemma example_two_new_eq:
  "example_two_new =
     example_scene
       \<lparr>freeStore := (freeStore example_scene)
            (3 \<mapsto> example_constant_generator (OtherContactType 1) 1,
             4 \<mapsto> example_constant_generator (OtherContactType 1) 2),
        nextFree := 5\<rparr>"
  by (simp add: example_two_new_def new_generator_def example_scene_eq)

lemma stale_cache_invalid:
  assumes "isForceCacheValid impl s \<or> isPotentialEnergyCacheValid impl s"
    and "subsystemTopologyVersion impl' \<noteq> subsystemTopologyVersion impl"
  shows "\<not> isForceCacheValid impl' s \<and> \<not> isPotentialEnergyCacheValid impl' s"
  using assms
  by (auto simp: isForceCacheValid_def isPotentialEnergyCacheValid_def isCacheValueRealized_def)

lemma stale_force_cache_rebuilt:
  assumes "\<not> isForceCacheValid impl s"
    and "stage_ge (getStage s) StageVelocity"
    and "forceCacheLoop Sig impl uninit s (getActiveContacts s) [] = (None, forces)"
  shows "ensureForceCacheValid Sig impl uninit s
           = (None, s\<lparr>forceCache := forces, forceCacheRealized := True\<rparr>)"
  using assms by (simp add: ensureForceCacheValid_def)

lemma example_two_new_fields:
  "subsystemTopologyVersion example_two_new = 3"
  "m_generators example_two_new = [(CircularPointContactType, 0), (OtherContactType 1, 1)]"
  "freeStore example_two_new 1
     = Some ((example_generator (OtherContactType 1))\<lparr>m_compliantContactSubsys := Some 0\<rparr>)"
  "freeStore example_two_new (Suc 0)
     = Some ((example_generator (OtherContactType 1))\<lparr>m_compliantContactSubsys := Some 0\<rparr>)"
  "freeStore example_two_new 3 = Some (example_constant_generator (OtherContactType 1) 1)"
  "freeStore example_two_new 4 = Some (example_constant_generator (OtherContactType 1) 2)"
  by (simp_all add: example_two_new_eq example_scene_eq)

lemma example_allocated_state_eq:
  "example_allocated_state =
     (example_state StageVelocity (0, 0, 0) (0, 0, 0) [example_other_contact])
       \<lparr>cacheTopologyVersion := 3, getZ := [0], getZDot := [0]\<rparr>"
  by (simp add: example_allocated_state_def realizeSubsystemTopologyImpl_def
        example_two_new_fields example_state_def)

lemma example_cached_state_eq:
  "example_cached_state = example_allocated_state\<lparr>forceCacheRealized := True\<rparr>"
  by (simp add: example_cached_state_def ensureForceCacheValid_def isForceCacheValid_def
        isCacheValueRealized_def example_allocated_state_eq example_state_def stage_ge_def
        example_other_contact_def example_contact_def getForceGenerator_def
        example_two_new_fields calcContactForce_def example_generator_def Let_def
        ContactForce_clear_def ContactForce_ctor_def ContactForce_isValid_def)

text \<open>
  Claim C7. Let two distinct live generator objects \<open>g1\<close> and \<open>g2\<close> have the same contact
  type id, neither of them owned by the registry yet, and let the registry be a map whose
  pointers are live. Adopting \<open>g1\<close> and then \<open>g2\<close> succeeds both times and leaves exactly
  one entry for that type id, holding \<open>g2\<close>; the object at \<open>g1\<close> has been deleted, the one
  at \<open>g2\<close> is live. Each of the two calls, like every successful call of
  \<open>adoptDefaultForceGenerator\<close>, invalidates what was cached before it: a state whose
  force or potential-energy cache was valid before the call has neither cache valid after
  it, and the next \<open>ensureForceCacheValid\<close> on such a state does not serve the old
  array but builds it anew with the generators now registered.
\<close>

theorem adopt_twice_replaces:
  assumes "freeStore impl g1 = Some obj1" and "freeStore impl g2 = Some obj2"
    and "g1 \<noteq> g2"
    and "getContactTypeId obj1 = type" and "getContactTypeId obj2 = type"
    and "distinct (map fst (m_generators impl))"
    and "\<forall>e \<in> set (m_generators impl). snd e \<in> dom (freeStore impl) \<and> snd e \<noteq> g1 \<and> snd e \<noteq> g2"
  shows "\<exists>impl1 impl2.
           adoptForceGenerator impl subsys (Some g1) = Inr impl1 \<and>
           adoptForceGenerator impl1 subsys (Some g2) = Inr impl2 \<and>
           filter (\<lambda>e. fst e = type) (m_generators impl2) = [(type, g2)] \<and>
           distinct (map fst (m_generators impl2)) \<and>
           getForceGenerator impl2 type = Inr g2 \<and>
           freeStore impl2 g1 = None \<and>
           freeStore impl2 g2 = Some (obj2\<lparr>m_compliantContactSubsys := Some subsys\<rparr>) \<and>
           (\<forall>s. isForceCacheValid impl s \<or> isPotentialEnergyCacheValid impl s \<longrightarrow>
                \<not> isForceCacheValid impl1 s \<and> \<not> isPotentialEnergyCacheValid impl1 s \<and>
                \<not> isForceCacheValid impl2 s \<and> \<not> isPotentialEnergyCacheValid impl2 s) \<and>
           (\<forall>s. isForceCacheValid impl1 s \<or> isPotentialEnergyCacheValid impl1 s \<longrightarrow>
                \<not> isForceCacheValid impl2 s \<and> \<not> isPotentialEnergyCacheValid impl2 s) \<and>
           (\<forall>s Sig uninit forces.
                isForceCacheValid impl s \<and> stage_ge (getStage s) StageVelocity \<and>
                forceCacheLoop Sig impl2 uninit s (getActiveContacts s) [] = (None, forces) \<longrightarrow>
                ensureForceCacheValid Sig impl2 uninit s
                  = (None, s\<lparr>forceCache := forces, forceCacheRealized := True\<rparr>)) \<and>
           (\<forall>g implD s.
                adoptDefaultForceGenerator impl subsys g = Inr implD \<and>
                (isForceCacheValid impl s \<or> isPotentialEnergyCacheValid impl s) \<longrightarrow>
                \<not> isForceCacheValid implD s \<and> \<not> isPotentialEnergyCacheValid implD s)"
proof -
  obtain impl1 where a1: "adoptForceGenerator impl subsys (Some g1) = Inr impl1"
    and gens1: "map_of (m_generators impl1) type = Some g1"
    and dist1: "distinct (map fst (m_generators impl1))"
    and live1: "freeStore impl1 g1 = Some (obj1\<lparr>m_compliantContactSubsys := Some subsys\<rparr>)"
    and live2: "freeStore impl1 g2 = Some obj2"
  proof (cases "map_of (m_generators impl) type")
    case None
    let ?r = "impl\<lparr>freeStore := (freeStore impl)(g1 \<mapsto> obj1\<lparr>m_compliantContactSubsys := Some subsys\<rparr>),
                    subsystemTopologyVersion := Suc (subsystemTopologyVersion impl),
                    m_generators := m_generators impl @ [(getContactTypeId obj1, g1)]\<rparr>"
    have "adoptForceGenerator impl subsys (Some g1) = Inr ?r"
      using assms(1,4) None by (intro adoptForceGenerator_insert) simp_all
    moreover have "map_of (m_generators ?r) type = Some g1"
      using None assms(4) by (simp add: map_add_Some_iff)
    moreover have "distinct (map fst (m_generators ?r))"
      using None assms(4,6) by (auto simp: map_of_eq_None_iff)
    moreover have "freeStore ?r g1 = Some (obj1\<lparr>m_compliantContactSubsys := Some subsys\<rparr>)"
      by simp
    moreover have "freeStore ?r g2 = Some obj2"
      using assms(2,3) by simp
    ultimately show ?thesis by (rule that)
  next
    case (Some old)
    then have mem: "(type, old) \<in> set (m_generators impl)"
      by (rule map_of_SomeD)
    with assms(7) have old: "old \<in> dom (freeStore impl)" "old \<noteq> g1" "old \<noteq> g2"
      by force+
    let ?r = "impl\<lparr>freeStore :=
                 ((freeStore impl)(g1 \<mapsto> obj1\<lparr>m_compliantContactSubsys := Some subsys\<rparr>))(old := None),
               subsystemTopologyVersion := Suc (subsystemTopologyVersion impl),
               m_generators := AList.update (getContactTypeId obj1) g1 (m_generators impl)\<rparr>"
    have "adoptForceGenerator impl subsys (Some g1) = Inr ?r"
      using assms(1,4) Some old(1) by (intro adoptForceGenerator_replace) simp_all
    moreover have "map_of (m_generators ?r) type = Some g1"
      using assms(4) by (simp add: update_conv')
    moreover have "distinct (map fst (m_generators ?r))"
      using assms(6) by (simp add: distinct_update)
    moreover have "freeStore ?r g1 = Some (obj1\<lparr>m_compliantContactSubsys := Some subsys\<rparr>)"
      using old(2) by simp
    moreover have "freeStore ?r g2 = Some obj2"
      using assms(2,3) old(3) by simp
    ultimately show ?thesis by (rule that)
  qed
  let ?impl2 = "impl1\<lparr>freeStore :=
                 ((freeStore impl1)(g2 \<mapsto> obj2\<lparr>m_compliantContactSubsys := Some subsys\<rparr>))(g1 := None),
               subsystemTopologyVersion := Suc (subsystemTopologyVersion impl1),
               m_generators := AList.update (getContactTypeId obj2) g2 (m_generators impl1)\<rparr>"
  have a2: "adoptForceGenerator impl1 subsys (Some g2) = Inr ?impl2"
    using live1 live2 gens1 assms(5) by (intro adoptForceGenerator_replace) auto
  have v1: "subsystemTopologyVersion impl1 = Suc (subsystemTopologyVersion impl)"
    using a1 by (rule adoptForceGenerator_invalidates)
  have v2: "subsystemTopologyVersion ?impl2 = Suc (Suc (subsystemTopologyVersion impl))"
    using v1 by simp
  have key: "type \<in> fst ` set (m_generators impl1)"
    using gens1 by (metis domI dom_map_of_conv_image_fst)
  have r1: "filter (\<lambda>e. fst e = type) (m_generators ?impl2) = [(type, g2)]"
    using dist1 key assms(5) by (simp add: filter_key_update)
  have r2: "distinct (map fst (m_generators ?impl2))"
    using dist1 by (simp add: distinct_update)
  have r3: "getForceGenerator ?impl2 type = Inr g2"
    using assms(5) by (simp add: getForceGenerator_def update_conv')
  have r4: "freeStore ?impl2 g1 = None"
    by simp
  have r5: "freeStore ?impl2 g2 = Some (obj2\<lparr>m_compliantContactSubsys := Some subsys\<rparr>)"
    using assms(3) by simp
  have n1: "subsystemTopologyVersion impl1 \<noteq> subsystemTopologyVersion impl"
    using v1 by simp
  have n2: "subsystemTopologyVersion ?impl2 \<noteq> subsystemTopologyVersion impl"
    using v2 by simp
  have n3: "subsystemTopologyVersion ?impl2 \<noteq> subsystemTopologyVersion impl1"
    by simp
  have i1: "\<forall>s. isForceCacheValid impl s \<or> isPotentialEnergyCacheValid impl s \<longrightarrow>
                \<not> isForceCacheValid impl1 s \<and> \<not> isPotentialEnergyCacheValid impl1 s \<and>
                \<not> isForceCacheValid ?impl2 s \<and> \<not> isPotentialEnergyCacheValid ?impl2 s"
  proof (intro allI impI)
    fix s
    assume h: "isForceCacheValid impl s \<or> isPotentialEnergyCacheValid impl s"
    from stale_cache_invalid [OF h n1] stale_cache_invalid [OF h n2]
    show "\<not> isForceCacheValid impl1 s \<and> \<not> isPotentialEnergyCacheValid impl1 s \<and>
          \<not> isForceCacheValid ?impl2 s \<and> \<not> isPotentialEnergyCacheValid ?impl2 s"
      by (intro conjI) (erule conjunct1, erule conjunct2)+
  qed
  have i2: "\<forall>s. isForceCacheValid impl1 s \<or> isPotentialEnergyCacheValid impl1 s \<longrightarrow>
                \<not> isForceCacheValid ?impl2 s \<and> \<not> isPotentialEnergyCacheValid ?impl2 s"
  proof (intro allI impI)
    fix s
    assume h: "isForceCacheValid impl1 s \<or> isPotentialEnergyCacheValid impl1 s"
    from stale_cache_invalid [OF h n3]
    show "\<not> isForceCacheValid ?impl2 s \<and> \<not> isPotentialEnergyCacheValid ?impl2 s" .
  qed
  have i3: "\<forall>s Sig uninit forces.
                isForceCacheValid impl s \<and> stage_ge (getStage s) StageVelocity \<and>
                forceCacheLoop Sig ?impl2 uninit s (getActiveContacts s) [] = (None, forces) \<longrightarrow>
                ensureForceCacheValid Sig ?impl2 uninit s
                  = (None, s\<lparr>forceCache := forces, forceCacheRealized := True\<rparr>)"
  proof (intro allI impI)
    fix s Sig uninit forces
    assume h: "isForceCacheValid impl s \<and> stage_ge (getStage s) StageVelocity \<and>
                forceCacheLoop Sig ?impl2 uninit s (getActiveContacts s) [] = (None, forces)"
    then have "isForceCacheValid impl s \<or> isPotentialEnergyCacheValid impl s"
      by simp
    from stale_cache_invalid [OF this n2] have "\<not> isForceCacheValid ?impl2 s"
      by (rule conjunct1)
    then show "ensureForceCacheValid Sig ?impl2 uninit s
                  = (None, s\<lparr>forceCache := forces, forceCacheRealized := True\<rparr>)"
      using h by (intro stale_force_cache_rebuilt) (erule conjE, erule conjE, assumption)+
  qed
  have i4: "\<forall>g implD s.
                adoptDefaultForceGenerator impl subsys g = Inr implD \<and>
                (isForceCacheValid impl s \<or> isPotentialEnergyCacheValid impl s) \<longrightarrow>
                \<not> isForceCacheValid implD s \<and> \<not> isPotentialEnergyCacheValid implD s"
  proof (intro allI impI)
    fix g implD s
    assume h: "adoptDefaultForceGenerator impl subsys g = Inr implD \<and>
                (isForceCacheValid impl s \<or> isPotentialEnergyCacheValid impl s)"
    then have ad: "adoptDefaultForceGenerator impl subsys g = Inr implD"
      and va: "isForceCacheValid impl s \<or> isPotentialEnergyCacheValid impl s"
      by simp_all
    from ad have "subsystemTopologyVersion implD = Suc (subsystemTopologyVersion impl)"
      by (rule adoptDefaultForceGenerator_invalidates)
    then have "subsystemTopologyVersion implD \<noteq> subsystemTopologyVersion impl"
      by simp
    with va show "\<not> isForceCacheValid implD s \<and> \<not> isPotentialEnergyCacheValid implD s"
      by (rule stale_cache_invalid)
  qed
  show ?thesis
    by (intro exI [of _ impl1] exI [of _ ?impl2] conjI a1 a2 r1 r2 r3 r4 r5 i1 i2 i3 i4)
qed

theorem adopt_twice_replaces_witness:
  "isForceCacheValid example_two_new example_cached_state \<and>
   forceCache example_cached_state = [] \<and>
   (\<exists>impl1 impl2.
      adoptForceGenerator example_two_new 0 (Some 3) = Inr impl1 \<and>
      adoptForceGenerator impl1 0 (Some 4) = Inr impl2 \<and>
      filter (\<lambda>e. fst e = OtherContactType 1) (m_generators impl2) = [(OtherContactType 1, 4)] \<and>
      getForceGenerator impl2 (OtherContactType 1) = Inr 4 \<and>
      freeStore impl2 3 = None \<and>
      \<not> isForceCacheValid impl1 example_cached_state \<and>
      \<not> isForceCacheValid impl2 example_cached_state \<and>
      \<not> isPotentialEnergyCacheValid impl2 example_cached_state \<and>
      map m_potentialEnergy
        (forceCache (snd (ensureForceCacheValid example_significant impl2 example_uninit
                            example_cached_state))) = [2])"
proof -
  let ?o1 = "example_constant_generator (OtherContactType 1) 1"
  let ?o2 = "example_constant_generator (OtherContactType 1) 2"
  let ?s = example_cached_state
  let ?f = "\<lparr>m_contactId = ContactId 7, m_centerOfPressureInG = (0, 0, 0),
            m_forceOnSurface2InG = ((0, 0, 0), (0, 0, 0)),
            m_potentialEnergy = 2, m_powerLoss = 0\<rparr>"
  have h1: "freeStore example_two_new 3 = Some ?o1"
    and h2: "freeStore example_two_new 4 = Some ?o2"
    by (simp_all add: example_two_new_fields)
  have h3: "(3::nat) \<noteq> 4"
    by simp
  have h4: "getContactTypeId ?o1 = OtherContactType 1"
    and h5: "getContactTypeId ?o2 = OtherContactType 1"
    by (simp_all add: example_constant_generator_def)
  have h6: "distinct (map fst (m_generators example_two_new))"
    by (simp add: example_two_new_fields)
  have h7: "\<forall>e \<in> set (m_generators example_two_new).
              snd e \<in> dom (freeStore example_two_new) \<and> snd e \<noteq> 3 \<and> snd e \<noteq> 4"
    by (simp add: example_two_new_eq example_scene_eq)
  have valid: "isForceCacheValid example_two_new ?s"
    by (simp add: isForceCacheValid_def isCacheValueRealized_def example_cached_state_eq
          example_allocated_state_eq example_two_new_fields)
  have empty: "forceCache ?s = []"
    by (simp add: example_cached_state_eq example_allocated_state_eq example_state_def)
  have st: "stage_ge (getStage ?s) StageVelocity" "getActiveContacts ?s = [example_other_contact]"
    by (simp_all add: example_cached_state_eq example_allocated_state_eq example_state_def
          stage_ge_def)
  from adopt_twice_replaces [OF h1 h2 h3 h4 h5 h6 h7, of 0]
  obtain impl1 impl2 where a1: "adoptForceGenerator example_two_new 0 (Some 3) = Inr impl1"
    and a2: "adoptForceGenerator impl1 0 (Some 4) = Inr impl2"
    and r1: "filter (\<lambda>e. fst e = OtherContactType 1) (m_generators impl2) = [(OtherContactType 1, 4)]"
    and r3: "getForceGenerator impl2 (OtherContactType 1) = Inr 4"
    and r4: "freeStore impl2 3 = None"
    and r5: "freeStore impl2 4 = Some (?o2\<lparr>m_compliantContactSubsys := Some 0\<rparr>)"
    and i1: "\<forall>s. isForceCacheValid example_two_new s \<or> isPotentialEnergyCacheValid example_two_new s \<longrightarrow>
                \<not> isForceCacheValid impl1 s \<and> \<not> isPotentialEnergyCacheValid impl1 s \<and>
                \<not> isForceCacheValid impl2 s \<and> \<not> isPotentialEnergyCacheValid impl2 s"
    and i3: "\<forall>s Sig uninit forces.
                isForceCacheValid example_two_new s \<and> stage_ge (getStage s) StageVelocity \<and>
                forceCacheLoop Sig impl2 uninit s (getActiveContacts s) [] = (None, forces) \<longrightarrow>
                ensureForceCacheValid Sig impl2 uninit s
                  = (None, s\<lparr>forceCache := forces, forceCacheRealized := True\<rparr>)"
    by blast
  have loop: "forceCacheLoop example_significant impl2 example_uninit ?s (getActiveContacts ?s) []
                = (None, [?f])"
    by (simp add: st example_other_contact_def example_contact_def r3 [unfolded One_nat_def] r5
          calcContactForce_def example_constant_generator_def Let_def ContactForce_isValid_def)
  from i3 valid st(1) loop
  have "ensureForceCacheValid example_significant impl2 example_uninit ?s
          = (None, ?s\<lparr>forceCache := [?f], forceCacheRealized := True\<rparr>)"
    by blast
  then have e: "map m_potentialEnergy
        (forceCache (snd (ensureForceCacheValid example_significant impl2 example_uninit ?s))) = [2]"
    by simp
  from i1 valid have inv: "\<not> isForceCacheValid impl1 ?s" "\<not> isForceCacheValid impl2 ?s"
    "\<not> isPotentialEnergyCacheValid impl2 ?s"
    by blast+
  show ?thesis
    by (intro conjI exI [of _ impl1] exI [of _ impl2] valid empty a1 a2 r1 r3 r4 inv e)
qed

section \<open>The checked setters\<close>

lemma round_nearest_even_error: "\<bar>of_int (round_nearest_even q) - q\<bar> \<le> 1 / 2"
proof -
  have "of_int \<lfloor>q\<rfloor> \<le> q" and "q < of_int \<lfloor>q\<rfloor> + 1"
    by linarith+
  then show ?thesis
    by (simp add: round_nearest_even_def Let_def)
qed

lemma round_nearest_even_ge: "\<lfloor>q\<rfloor> \<le> round_nearest_even q"
  by (simp add: round_nearest_even_def Let_def)

text \<open>
  Rounding a real of the normal range: the result is finite and positive, and the relative
  error is at most \<open>2 ^ - 53\<close>.
\<close>

lemma round_to_double_normal:
  assumes lo: "1 / 2 ^ 1022 \<le> a" and hi: "a \<le> 2 ^ 1023"
  shows "\<exists>y. round_to_double a = Finite y \<and> \<bar>y - a\<bar> \<le> a / 2 ^ 53 \<and> 0 < y"
proof -
  have pos: "0 < a"
    using lo by (rule less_le_trans [rotated]) simp
  define e where "e = \<lfloor>log 2 a\<rfloor>"
  have "(2::real) powr (- 1022) = 1 / 2 ^ 1022"
    by (simp add: powr_minus_divide)
  with lo have "(2::real) powr (- 1022) \<le> a"
    by simp
  then have "- 1022 \<le> log 2 a"
    using pos by (simp add: le_log_iff)
  then have e_lo: "- 1022 \<le> e"
    unfolding e_def by (simp add: le_floor_iff)
  have "of_int e \<le> log 2 a"
    unfolding e_def by simp
  then have pe: "(2::real) powr (of_int e) \<le> a"
    using pos by (simp add: le_log_iff)
  define ulp :: real where "ulp = 2 powr (of_int e - 52)"
  have ulp_pos: "0 < ulp"
    by (simp add: ulp_def)
  have ulp_eq: "ulp * 2 ^ 52 = 2 powr (of_int e)"
    by (simp add: ulp_def powr_diff)
  define q where "q = a / ulp"
  define m where "m = round_nearest_even q"
  have "2 ^ 52 * ulp \<le> a"
    using pe ulp_eq by (simp add: mult.commute)
  then have q_lo: "2 ^ 52 \<le> q"
    using ulp_pos by (simp add: q_def pos_le_divide_eq)
  then have "(2 ^ 52 :: int) \<le> \<lfloor>q\<rfloor>"
    by (simp add: le_floor_iff)
  then have m_lo: "2 ^ 52 \<le> m"
    unfolding m_def using round_nearest_even_ge [of q] by linarith
  then have m_pos: "0 < m"
    by simp
  have "\<bar>of_int m - q\<bar> \<le> 1 / 2"
    unfolding m_def by (rule round_nearest_even_error)
  then have "\<bar>of_int m - q\<bar> * ulp \<le> (1 / 2) * ulp"
    using ulp_pos by (intro mult_right_mono) simp_all
  moreover have "\<bar>of_int m * ulp - a\<bar> = \<bar>of_int m - q\<bar> * ulp"
  proof -
    have "of_int m * ulp - a = (of_int m - q) * ulp"
      using ulp_pos by (simp add: q_def algebra_simps)
    then show ?thesis
      using ulp_pos by (simp add: abs_mult)
  qed
  moreover have "(1 / 2) * ulp \<le> a / 2 ^ 53"
  proof -
    have "(1 / 2) * ulp = (ulp * 2 ^ 52) / 2 ^ 53"
      by simp
    also have "\<dots> \<le> a / 2 ^ 53"
      using pe ulp_eq by (simp add: divide_right_mono)
    finally show ?thesis .
  qed
  ultimately have err: "\<bar>of_int m * ulp - a\<bar> \<le> a / 2 ^ 53"
    by linarith
  have no_overflow: "\<not> (2 ^ 1024 - 2 ^ 970 \<le> \<bar>a\<bar>)"
  proof -
    have "(2::real) ^ 1023 < 2 ^ 1024 - 2 ^ 970"
      by simp
    with hi pos show ?thesis
      by simp
  qed
  have "round_to_double a = Finite (of_int m * ulp)"
    using pos no_overflow e_lo m_pos
    by (simp add: round_to_double_def Let_def e_def [symmetric] ulp_def [symmetric]
          q_def [symmetric] m_def [symmetric] max_def)
  moreover have "0 < of_int m * ulp"
    using m_pos ulp_pos by simp
  ultimately show ?thesis
    using err by blast
qed

text \<open>
  Rounding any positive real below the overflow threshold: the result is finite and not
  negative, within half a unit in the last place: a relative error of at most \<open>2 ^ - 53\<close>,
  or, in the subnormal range, an absolute error of at most \<open>2 ^ - 1075\<close>.
\<close>

lemma round_to_double_finite:
  assumes pos: "0 < a" and hi: "a < 2 ^ 1024 - 2 ^ 970"
  shows "\<exists>y. round_to_double a = Finite y \<and> 0 \<le> y \<and>
             (\<bar>y - a\<bar> \<le> a / 2 ^ 53 \<or> \<bar>y - a\<bar> \<le> 1 / 2 ^ 1075)"
proof -
  define e where "e = max \<lfloor>log 2 a\<rfloor> (- 1022)"
  define ulp :: real where "ulp = 2 powr (of_int e - 52)"
  define q where "q = a / ulp"
  define m where "m = round_nearest_even q"
  have ulp_pos: "0 < ulp"
    by (simp add: ulp_def)
  have q_pos: "0 \<le> q"
    using pos ulp_pos by (simp add: q_def)
  then have "0 \<le> \<lfloor>q\<rfloor>"
    by simp
  then have m_nn: "0 \<le> m"
    unfolding m_def using round_nearest_even_ge [of q] by linarith
  have "\<bar>of_int m - q\<bar> \<le> 1 / 2"
    unfolding m_def by (rule round_nearest_even_error)
  then have "\<bar>of_int m - q\<bar> * ulp \<le> (1 / 2) * ulp"
    using ulp_pos by (intro mult_right_mono) simp_all
  moreover have "\<bar>of_int m * ulp - a\<bar> = \<bar>of_int m - q\<bar> * ulp"
  proof -
    have "of_int m * ulp - a = (of_int m - q) * ulp"
      using ulp_pos by (simp add: q_def algebra_simps)
    then show ?thesis
      using ulp_pos by (simp add: abs_mult)
  qed
  ultimately have err: "\<bar>of_int m * ulp - a\<bar> \<le> ulp / 2"
    by simp
  have half: "ulp / 2 \<le> a / 2 ^ 53 \<or> ulp / 2 \<le> 1 / 2 ^ 1075"
  proof (cases "- 1022 \<le> \<lfloor>log 2 a\<rfloor>")
    case True
    then have e: "e = \<lfloor>log 2 a\<rfloor>"
      by (simp add: e_def)
    have "of_int e \<le> log 2 a"
      unfolding e by simp
    then have pe: "(2::real) powr (of_int e) \<le> a"
      using pos by (simp add: le_log_iff)
    have ulp_eq: "ulp * 2 ^ 52 = 2 powr (of_int e)"
      by (simp add: ulp_def powr_diff)
    have "ulp / 2 = (ulp * 2 ^ 52) / 2 ^ 53"
      by simp
    also have "\<dots> \<le> a / 2 ^ 53"
      using pe ulp_eq by (simp add: divide_right_mono)
    finally show ?thesis
      by simp
  next
    case False
    then have e: "e = - 1022"
      by (simp add: e_def)
    have "ulp = 1 / 2 ^ 1074"
      by (simp add: ulp_def e powr_minus_divide)
    then show ?thesis
      by simp
  qed
  have no_overflow: "\<not> (2 ^ 1024 - 2 ^ 970 \<le> \<bar>a\<bar>)"
    using hi pos by simp
  have res: "round_to_double a = Finite (of_int m * ulp)"
    using pos no_overflow
    by (simp add: round_to_double_def Let_def e_def [symmetric] ulp_def [symmetric]
          q_def [symmetric] m_def [symmetric] signed_zero_def)
  have nn: "0 \<le> of_int m * ulp"
    using m_nn ulp_pos by simp
  from err half have "\<bar>of_int m * ulp - a\<bar> \<le> a / 2 ^ 53 \<or> \<bar>of_int m * ulp - a\<bar> \<le> 1 / 2 ^ 1075"
    by linarith
  with res nn show ?thesis
    by blast
qed

text \<open>
  The reciprocal of \<open>x\<close> is finite exactly when \<open>1 / x\<close> is below the overflow threshold.
  Then its product with \<open>x\<close>, exact or as binary64 computes it, is \<open>1\<close> within a few units
  in the last place; otherwise the reciprocal is \<open>+\<infinity>\<close>.
\<close>

lemma double_reciprocal_finite:
  assumes lo: "1 / (2 ^ 1024 - 2 ^ 970) < x" and hi: "x < 2 ^ 1024 - 2 ^ 970"
  shows "double_gt (Finite x) (Finite 0) \<and>
         (\<exists>r p. double_div (Finite 1) (Finite x) = Finite r \<and>
                \<bar>r * x - 1\<bar> \<le> 1 / 2 ^ 51 \<and>
                double_mult (Finite r) (Finite x) = Finite p \<and>
                \<bar>p - 1\<bar> \<le> 1 / 2 ^ 50)"
proof -
  have t_pos: "(0::real) < 2 ^ 1024 - 2 ^ 970"
    by simp
  have pos: "0 < x"
    using lo by (rule less_trans [rotated]) (simp add: t_pos)
  have gt: "double_gt (Finite x) (Finite 0)"
    using pos by simp
  have a_pos: "0 < 1 / x"
    using pos by simp
  have a_hi: "1 / x < 2 ^ 1024 - 2 ^ 970"
  proof -
    have "1 < x * (2 ^ 1024 - 2 ^ 970)"
      using lo t_pos by (simp add: pos_divide_less_eq)
    then show ?thesis
      using pos by (simp add: pos_divide_less_eq mult.commute)
  qed
  obtain r where r: "round_to_double (1 / x) = Finite r" and r_nn: "0 \<le> r"
    and r_err: "\<bar>r - 1 / x\<bar> \<le> (1 / x) / 2 ^ 53 \<or> \<bar>r - 1 / x\<bar> \<le> 1 / 2 ^ 1075"
    using round_to_double_finite [OF a_pos a_hi] by blast
  have x_hi: "x \<le> 2 ^ 1024"
    using hi by simp
  have "\<bar>r - 1 / x\<bar> * x \<le> 1 / 2 ^ 51"
    using r_err
  proof
    assume "\<bar>r - 1 / x\<bar> \<le> (1 / x) / 2 ^ 53"
    then have "\<bar>r - 1 / x\<bar> * x \<le> ((1 / x) / 2 ^ 53) * x"
      using pos by (intro mult_right_mono) simp_all
    also have "\<dots> = 1 / 2 ^ 53"
      using pos by simp
    also have "\<dots> \<le> 1 / 2 ^ 51"
      by simp
    finally show ?thesis .
  next
    assume "\<bar>r - 1 / x\<bar> \<le> 1 / 2 ^ 1075"
    then have "\<bar>r - 1 / x\<bar> * x \<le> (1 / 2 ^ 1075) * 2 ^ 1024"
      using pos x_hi by (intro mult_mono) simp_all
    also have "\<dots> = 1 / 2 ^ 51"
      by simp
    finally show ?thesis .
  qed
  moreover have "\<bar>r * x - 1\<bar> = \<bar>r - 1 / x\<bar> * x"
  proof -
    have "r * x - 1 = (r - 1 / x) * x"
      using pos by (simp add: algebra_simps)
    then show ?thesis
      using pos by (simp add: abs_mult)
  qed
  ultimately have rx: "\<bar>r * x - 1\<bar> \<le> 1 / 2 ^ 51"
    by simp
  have div: "double_div (Finite 1) (Finite x) = Finite r"
    using pos r
    by (simp add: double_div_def double_is_nan_def double_is_inf_def double_is_zero_def)
  have p_lo: "1 / 2 ^ 1022 \<le> r * x"
  proof -
    have "(1 / 2 ^ 1022 :: real) \<le> 1 - 1 / 2 ^ 51"
      by simp
    with rx show ?thesis
      by linarith
  qed
  have p_hi: "r * x \<le> 2 ^ 1023"
  proof -
    have "(1 + 1 / 2 ^ 51 :: real) \<le> 2 ^ 1023"
      by simp
    with rx show ?thesis
      by linarith
  qed
  have r_pos: "0 < r"
  proof (rule ccontr)
    assume "\<not> 0 < r"
    with r_nn have "r = 0"
      by simp
    with rx show False
      by simp
  qed
  obtain p where p: "round_to_double (r * x) = Finite p"
    and p_err: "\<bar>p - r * x\<bar> \<le> (r * x) / 2 ^ 53"
    using round_to_double_normal [OF p_lo p_hi] by blast
  have mult: "double_mult (Finite r) (Finite x) = Finite p"
    using pos r_pos p
    by (simp add: double_mult_def double_is_nan_def double_is_inf_def double_is_zero_def)
  have "r * x \<le> 1 + 1 / 2 ^ 51"
    using rx by linarith
  then have "(r * x) / 2 ^ 53 \<le> (1 + 1 / 2 ^ 51) / 2 ^ 53"
    by (rule divide_right_mono) simp
  with p_err have "\<bar>p - r * x\<bar> \<le> (1 + 1 / 2 ^ 51) / 2 ^ 53"
    by linarith
  with rx have "\<bar>p - 1\<bar> \<le> 1 / 2 ^ 51 + (1 + 1 / 2 ^ 51) / 2 ^ 53"
    by linarith
  also have "\<dots> \<le> 1 / 2 ^ 50"
    by simp
  finally have p1: "\<bar>p - 1\<bar> \<le> 1 / 2 ^ 50" .
  show ?thesis
    using gt div rx mult p1 by blast
qed

lemma double_reciprocal_overflow:
  assumes pos: "0 < x" and lo: "x \<le> 1 / (2 ^ 1024 - 2 ^ 970)"
  shows "double_gt (Finite x) (Finite 0) \<and> double_div (Finite 1) (Finite x) = PosInf \<and>
         double_mult PosInf (Finite x) = PosInf"
proof -
  have t_pos: "(0::real) < 2 ^ 1024 - 2 ^ 970"
    by simp
  have "x * (2 ^ 1024 - 2 ^ 970) \<le> 1"
    using lo t_pos by (simp add: pos_le_divide_eq)
  then have big: "2 ^ 1024 - 2 ^ 970 \<le> 1 / x"
    using pos by (simp add: pos_le_divide_eq mult.commute)
  have nz: "1 / x \<noteq> 0"
    using pos by simp
  have "round_to_double (1 / x) = PosInf"
    using big pos nz
    by (simp only: round_to_double_def signed_inf_def) (simp add: abs_of_pos)
  then have "double_div (Finite 1) (Finite x) = PosInf"
    using pos
    by (simp add: double_div_def double_is_nan_def double_is_inf_def double_is_zero_def)
  moreover have "double_mult PosInf (Finite x) = PosInf"
    using pos
    by (simp add: double_mult_def double_is_nan_def double_is_inf_def double_is_zero_def
          signed_inf_def)
  moreover have "double_gt (Finite x) (Finite 0)"
    using pos by simp
  ultimately show ?thesis
    by simp
qed

text \<open>
  Claim C8, as amended. \<open>setTransitionVelocity\<close> rejects every \<open>vt\<close> that is not greater
  than zero (zero, a negative number, NaN) with an error and leaves the two members as
  they were; for every \<open>vt > 0\<close> it succeeds and stores \<open>vt\<close> and the quotient \<open>1 / vt\<close>.
  In exact arithmetic the two stored values have the product \<open>1\<close>. In binary64 arithmetic
  that holds within rounding for every finite \<open>vt\<close> above \<open>1 / (2 ^ 1024 - 2 ^ 970)\<close>: the
  stored reciprocal \<open>r\<close> is finite with \<open>\<bar>r * vt - 1\<bar> \<le> 2 ^ - 51\<close>, and the product as the
  program computes it is finite and within \<open>2 ^ - 50\<close> of \<open>1\<close>. For a positive \<open>vt\<close> at or
  below that bound the stored reciprocal is \<open>+\<infinity>\<close>, and so is the product; for
  \<open>vt = +\<infinity>\<close> the stored reciprocal is \<open>0\<close> and the product is NaN. Every finite binary64
  value is below \<open>2 ^ 1024 - 2 ^ 970\<close>, so the three cases cover every \<open>vt > 0\<close>. The first
  two conjuncts are the reading over the reals, the others the binary64 reading of the
  same two functions.
\<close>

theorem setTransitionVelocity_checked:
  "(v \<le> 0 \<longrightarrow> setTransitionVelocity impl v = (Some ErrorCheck, impl)) \<and>
   (0 < v \<longrightarrow>
      setTransitionVelocity impl v =
        (None, impl\<lparr>m_transitionVelocity := v, m_ooTransitionVelocity := 1 / v\<rparr>) \<and>
      getTransitionVelocity (snd (setTransitionVelocity impl v)) = v \<and>
      getOOTransitionVelocity (snd (setTransitionVelocity impl v)) *
        getTransitionVelocity (snd (setTransitionVelocity impl v)) = 1) \<and>
   (\<not> double_gt vt (Finite 0) \<longrightarrow>
      setTransitionVelocity_binary64 members vt = (Some ErrorCheck, members)) \<and>
   (double_gt vt (Finite 0) \<longrightarrow>
      setTransitionVelocity_binary64 members vt = (None, (vt, double_div (Finite 1) vt))) \<and>
   (1 / (2 ^ 1024 - 2 ^ 970) < x \<and> x < 2 ^ 1024 - 2 ^ 970 \<longrightarrow>
      double_gt (Finite x) (Finite 0) \<and>
      (\<exists>r p. setTransitionVelocity_binary64 members (Finite x) = (None, (Finite x, Finite r)) \<and>
             \<bar>r * x - 1\<bar> \<le> 1 / 2 ^ 51 \<and>
             double_mult (Finite r) (Finite x) = Finite p \<and>
             \<bar>p - 1\<bar> \<le> 1 / 2 ^ 50)) \<and>
   (0 < x \<and> x \<le> 1 / (2 ^ 1024 - 2 ^ 970) \<longrightarrow>
      double_gt (Finite x) (Finite 0) \<and>
      setTransitionVelocity_binary64 members (Finite x) = (None, (Finite x, PosInf)) \<and>
      double_mult PosInf (Finite x) = PosInf) \<and>
   double_gt PosInf (Finite 0) \<and>
   setTransitionVelocity_binary64 members PosInf = (None, (PosInf, Finite 0)) \<and>
   double_mult (Finite 0) PosInf = NaN"
proof (intro conjI impI)
  assume "v \<le> 0"
  then show "setTransitionVelocity impl v = (Some ErrorCheck, impl)"
    by (simp add: setTransitionVelocity_def)
next
  assume "0 < v"
  then show "setTransitionVelocity impl v =
      (None, impl\<lparr>m_transitionVelocity := v, m_ooTransitionVelocity := 1 / v\<rparr>)"
    by (simp add: setTransitionVelocity_def Impl_setTransitionVelocity_def)
next
  assume "0 < v"
  then show "getTransitionVelocity (snd (setTransitionVelocity impl v)) = v"
    by (simp add: setTransitionVelocity_def Impl_setTransitionVelocity_def
          getTransitionVelocity_def)
next
  assume "0 < v"
  then show "getOOTransitionVelocity (snd (setTransitionVelocity impl v)) *
      getTransitionVelocity (snd (setTransitionVelocity impl v)) = 1"
    by (simp add: setTransitionVelocity_def Impl_setTransitionVelocity_def
          getTransitionVelocity_def getOOTransitionVelocity_def)
next
  assume "\<not> double_gt vt (Finite 0)"
  then show "setTransitionVelocity_binary64 members vt = (Some ErrorCheck, members)"
    by (simp add: setTransitionVelocity_binary64_def)
next
  assume "double_gt vt (Finite 0)"
  then show "setTransitionVelocity_binary64 members vt = (None, (vt, double_div (Finite 1) vt))"
    by (simp add: setTransitionVelocity_binary64_def Impl_setTransitionVelocity_binary64_def)
next
  assume range: "1 / (2 ^ 1024 - 2 ^ 970) < x \<and> x < 2 ^ 1024 - 2 ^ 970"
  then show "double_gt (Finite x) (Finite 0)"
    using double_reciprocal_finite [of x] by simp
next
  assume range: "1 / (2 ^ 1024 - 2 ^ 970) < x \<and> x < 2 ^ 1024 - 2 ^ 970"
  then obtain r p where gt: "double_gt (Finite x) (Finite 0)"
    and r: "double_div (Finite 1) (Finite x) = Finite r"
    and rx: "\<bar>r * x - 1\<bar> \<le> 1 / 2 ^ 51"
    and p: "double_mult (Finite r) (Finite x) = Finite p"
    and p1: "\<bar>p - 1\<bar> \<le> 1 / 2 ^ 50"
    using double_reciprocal_finite [of x] by blast
  have "setTransitionVelocity_binary64 members (Finite x) = (None, (Finite x, Finite r))"
    using gt r
    by (simp add: setTransitionVelocity_binary64_def Impl_setTransitionVelocity_binary64_def)
  then show "\<exists>r p. setTransitionVelocity_binary64 members (Finite x) =
                     (None, (Finite x, Finite r)) \<and>
             \<bar>r * x - 1\<bar> \<le> 1 / 2 ^ 51 \<and>
             double_mult (Finite r) (Finite x) = Finite p \<and>
             \<bar>p - 1\<bar> \<le> 1 / 2 ^ 50"
    using rx p p1 by blast
next
  assume small: "0 < x \<and> x \<le> 1 / (2 ^ 1024 - 2 ^ 970)"
  then show "double_gt (Finite x) (Finite 0)"
    by simp
next
  assume small: "0 < x \<and> x \<le> 1 / (2 ^ 1024 - 2 ^ 970)"
  then have "double_gt (Finite x) (Finite 0)" "double_div (Finite 1) (Finite x) = PosInf"
    using double_reciprocal_overflow [of x] by simp_all
  then show "setTransitionVelocity_binary64 members (Finite x) = (None, (Finite x, PosInf))"
    by (simp add: setTransitionVelocity_binary64_def Impl_setTransitionVelocity_binary64_def)
next
  assume small: "0 < x \<and> x \<le> 1 / (2 ^ 1024 - 2 ^ 970)"
  then show "double_mult PosInf (Finite x) = PosInf"
    using double_reciprocal_overflow [of x] by simp
next
  show "double_gt PosInf (Finite 0)"
    by simp
next
  show "setTransitionVelocity_binary64 members PosInf = (None, (PosInf, Finite 0))"
    by (simp add: setTransitionVelocity_binary64_def Impl_setTransitionVelocity_binary64_def
          double_div_def double_is_nan_def double_is_inf_def signed_zero_def)
next
  show "double_mult (Finite 0) PosInf = NaN"
    by (simp add: double_mult_def double_is_nan_def double_is_inf_def double_is_zero_def)
qed

theorem setTransitionVelocity_checked_witness:
  "setTransitionVelocity example_scene 0 = (Some ErrorCheck, example_scene) \<and>
   getTransitionVelocity (snd (setTransitionVelocity example_scene 2)) = 2 \<and>
   getOOTransitionVelocity (snd (setTransitionVelocity example_scene 2)) *
     getTransitionVelocity (snd (setTransitionVelocity example_scene 2)) = 1 \<and>
   setTransitionVelocity_binary64 (Finite 1, Finite 1) NaN = (Some ErrorCheck, (Finite 1, Finite 1)) \<and>
   setTransitionVelocity_binary64 (Finite 1, Finite 1) NegZero =
     (Some ErrorCheck, (Finite 1, Finite 1)) \<and>
   setTransitionVelocity_binary64 (Finite 1, Finite 1) (Finite (- 1)) =
     (Some ErrorCheck, (Finite 1, Finite 1)) \<and>
   (\<exists>r p. setTransitionVelocity_binary64 (Finite 1, Finite 1) (Finite 2) =
             (None, (Finite 2, Finite r)) \<and>
          \<bar>r * 2 - 1\<bar> \<le> 1 / 2 ^ 51 \<and>
          double_mult (Finite r) (Finite 2) = Finite p \<and>
          \<bar>p - 1\<bar> \<le> 1 / 2 ^ 50) \<and>
   setTransitionVelocity_binary64 (Finite 1, Finite 1) (Finite (1 / 2 ^ 1025)) =
     (None, (Finite (1 / 2 ^ 1025), PosInf))"
  using setTransitionVelocity_checked [of 0 example_scene NaN "(Finite 1, Finite 1)" 2]
        setTransitionVelocity_checked [of 2 example_scene NegZero "(Finite 1, Finite 1)" 2]
        setTransitionVelocity_checked
          [of 2 example_scene "Finite (- 1)" "(Finite 1, Finite 1)" "1 / 2 ^ 1025"]
        setTransitionVelocity_checked
          [of 2 example_scene "Finite 2" "(Finite 1, Finite 1)" "1 / 2 ^ 1025"]
  by simp

text \<open>
  Claim C8 as stated fails in the arithmetic the program runs in. \<open>2 ^ - 1030\<close> is a
  (subnormal) binary64 value and greater than zero, so the setter accepts it; the exact
  quotient \<open>2 ^ 1030\<close> is beyond the largest finite value, so the stored reciprocal is
  \<open>+\<infinity>\<close>, and the product of the two stored values is \<open>+\<infinity>\<close>, not \<open>1\<close> within any
  tolerance. The setter accepts \<open>+\<infinity>\<close> as well; the stored reciprocal is then \<open>0\<close> and the
  product is NaN.
\<close>

theorem setTransitionVelocity_reciprocal_overflow_counterexample:
  "double_gt (Finite (1 / 2 ^ 1030)) (Finite 0) \<and>
   setTransitionVelocity_binary64 (Finite 1, Finite 1) (Finite (1 / 2 ^ 1030)) =
     (None, (Finite (1 / 2 ^ 1030), PosInf)) \<and>
   double_mult PosInf (Finite (1 / 2 ^ 1030)) = PosInf \<and>
   double_gt PosInf (Finite 0) \<and>
   setTransitionVelocity_binary64 (Finite 1, Finite 1) PosInf = (None, (PosInf, Finite 0)) \<and>
   double_mult (Finite 0) PosInf = NaN"
  by (simp add: setTransitionVelocity_binary64_def Impl_setTransitionVelocity_binary64_def
        double_div_def double_mult_def double_is_nan_def double_is_inf_def double_is_zero_def
        round_to_double_def signed_inf_def signed_zero_def)

text \<open>
  Claim C9. \<open>setDissipatedEnergy\<close> rejects every negative energy with an error and
  leaves the state as it was; for every energy \<open>e \<ge> 0\<close>, on a subsystem that knows the
  index of its dissipated-energy variable and a state in which the variable is allocated
  (as they are after the topology has been realized), the call succeeds and
  \<open>getDissipatedEnergy\<close> then returns exactly \<open>e\<close>.
\<close>

theorem setDissipatedEnergy_checked:
  "(energy < 0 \<longrightarrow> setDissipatedEnergy impl s energy = (Some ErrorCheck, s)) \<and>
   (0 \<le> energy \<and> m_dissipatedEnergyIx impl = Some ix \<and> ix < length (getZ s) \<longrightarrow>
      (\<exists>s'. setDissipatedEnergy impl s energy = (None, s') \<and>
            getDissipatedEnergy impl s' = Inr energy)) \<and>
   (0 \<le> energy \<longrightarrow>
      (\<exists>s'. setDissipatedEnergy (fst (realizeSubsystemTopologyImpl impl s))
              (snd (realizeSubsystemTopologyImpl impl s)) energy = (None, s') \<and>
            getDissipatedEnergy (fst (realizeSubsystemTopologyImpl impl s)) s' = Inr energy))"
  by (simp add: setDissipatedEnergy_def updDissipatedEnergyVar_def getDissipatedEnergy_def
        getDissipatedEnergyVar_def realizeSubsystemTopologyImpl_def)

theorem setDissipatedEnergy_checked_witness:
  "setDissipatedEnergy example_scene (example_state StageTopology (0, 0, 0) (0, 0, 0) []) (- 1)
     = (Some ErrorCheck, example_state StageTopology (0, 0, 0) (0, 0, 0) []) \<and>
   m_dissipatedEnergyIx
     (fst (realizeSubsystemTopologyImpl example_scene
             (example_state StageTopology (0, 0, 0) (0, 0, 0) []))) = Some 0 \<and>
   getDissipatedEnergy
     (fst (realizeSubsystemTopologyImpl example_scene
             (example_state StageTopology (0, 0, 0) (0, 0, 0) [])))
     (snd (setDissipatedEnergy
             (fst (realizeSubsystemTopologyImpl example_scene
                     (example_state StageTopology (0, 0, 0) (0, 0, 0) [])))
             (snd (realizeSubsystemTopologyImpl example_scene
                     (example_state StageTopology (0, 0, 0) (0, 0, 0) [])))
             5)) = Inr 5"
  using setDissipatedEnergy_checked
          [of "- 1" example_scene "example_state StageTopology (0, 0, 0) (0, 0, 0) []" 0]
        setDissipatedEnergy_checked
          [of 5 "fst (realizeSubsystemTopologyImpl example_scene
                        (example_state StageTopology (0, 0, 0) (0, 0, 0) []))"
              "snd (realizeSubsystemTopologyImpl example_scene
                        (example_state StageTopology (0, 0, 0) (0, 0, 0) []))" 0]
  by (auto simp: realizeSubsystemTopologyImpl_def example_state_def)

section \<open>The constructor leaves a default generator\<close>

lemma adoptDefault_some_has_default:
  "adoptDefaultForceGenerator impl subsys (Some g) = Inr impl' \<Longrightarrow>
   m_defaultGenerator impl' = Some g \<and> m_generators impl' = m_generators impl"
  by (auto simp: adoptDefaultForceGenerator_def setCompliantContactSubsystem_def
        invalidateSubsystemTopologyCache_def delete_generator_def Let_def
      split: option.splits sum.splits if_splits)

lemma adoptDefault_null:
  "adoptDefaultForceGenerator impl subsys None = Inr impl' \<Longrightarrow>
   m_defaultGenerator impl' = None \<and> m_generators impl' = m_generators impl"
  by (auto simp: adoptDefaultForceGenerator_def setCompliantContactSubsystem_def
        invalidateSubsystemTopologyCache_def delete_generator_def Let_def
      split: option.splits sum.splits if_splits)

lemma adoptDefault_null_succeeds:
  "m_defaultGenerator impl = Some d \<Longrightarrow> freeStore impl d = Some obj \<Longrightarrow>
   \<exists>impl'. adoptDefaultForceGenerator impl subsys None = Inr impl'"
  by (auto simp: adoptDefaultForceGenerator_def invalidateSubsystemTopologyCache_def
        delete_generator_def Let_def)

lemma getForceGenerator_total:
  "hasDefaultForceGenerator impl \<Longrightarrow> \<exists>g. getForceGenerator impl type = Inr g"
  by (auto simp: getForceGenerator_def getDefaultForceGenerator_def hasDefaultForceGenerator_def
      split: option.splits)

lemma getForceGenerator_missing:
  "\<not> hasDefaultForceGenerator impl \<Longrightarrow> \<not> hasForceGenerator impl type \<Longrightarrow>
   getForceGenerator impl type = Inl AssertionFailed"
  by (auto simp: getForceGenerator_def getDefaultForceGenerator_def hasDefaultForceGenerator_def
        hasForceGenerator_def split: option.splits)

text \<open>
  Claim C10. The constructor succeeds and registers the Hertz generator, the elastic
  foundation generator and the do-nothing default (the latter two passed in as built
  objects; the Hertz generator keeps the circular point contact type unless the elastic
  foundation object claims that type). Right after construction there is a default
  generator, and \<open>getForceGenerator\<close> returns a live generator for every contact type.
  Adopting further generators, or a non-null default, keeps it so; adopting a null
  default makes the lookup of every unregistered type fail.
\<close>

theorem constructor_registers_generators:
  "\<exists>impl.
     CompliantContactSubsystem_ctor subsys tracker ef dn = Inr impl \<and>
     hasDefaultForceGenerator impl \<and>
     (\<exists>g. getDefaultForceGenerator impl = Inr g \<and>
          freeStore impl g = Some (dn\<lparr>m_compliantContactSubsys := Some subsys\<rparr>)) \<and>
     (\<exists>g. getForceGenerator impl (getContactTypeId ef) = Inr g \<and>
          freeStore impl g = Some (ef\<lparr>m_compliantContactSubsys := Some subsys\<rparr>)) \<and>
     (getContactTypeId ef \<noteq> CircularPointContactType \<longrightarrow>
        (\<exists>g. getForceGenerator impl CircularPointContactType = Inr g \<and>
             freeStore impl g = Some (HertzCircular_ctor\<lparr>m_compliantContactSubsys := Some subsys\<rparr>))) \<and>
     (\<forall>type. \<exists>g obj. getForceGenerator impl type = Inr g \<and> freeStore impl g = Some obj) \<and>
     (\<forall>g impl'. adoptForceGenerator impl subsys g = Inr impl' \<longrightarrow>
        hasDefaultForceGenerator impl' \<and> (\<forall>type. \<exists>g'. getForceGenerator impl' type = Inr g')) \<and>
     (\<forall>g impl'. adoptDefaultForceGenerator impl subsys (Some g) = Inr impl' \<longrightarrow>
        hasDefaultForceGenerator impl' \<and> (\<forall>type. \<exists>g'. getForceGenerator impl' type = Inr g')) \<and>
     (\<exists>impl'. adoptDefaultForceGenerator impl subsys None = Inr impl' \<and>
        \<not> hasDefaultForceGenerator impl' \<and>
        (\<forall>type. \<not> hasForceGenerator impl type \<longrightarrow>
           getForceGenerator impl' type = Inl AssertionFailed))"
proof -
  let ?impl = "(CompliantContactSubsystemImpl_ctor tracker)
       \<lparr>m_generators :=
          (if getContactTypeId ef = CircularPointContactType
           then [(CircularPointContactType, 1)]
           else [(CircularPointContactType, 0), (getContactTypeId ef, 1)]),
        m_defaultGenerator := Some 2,
        freeStore :=
          (if getContactTypeId ef = CircularPointContactType
           then [1 \<mapsto> ef\<lparr>m_compliantContactSubsys := Some subsys\<rparr>,
                 2 \<mapsto> dn\<lparr>m_compliantContactSubsys := Some subsys\<rparr>]
           else [0 \<mapsto> HertzCircular_ctor\<lparr>m_compliantContactSubsys := Some subsys\<rparr>,
                 1 \<mapsto> ef\<lparr>m_compliantContactSubsys := Some subsys\<rparr>,
                 2 \<mapsto> dn\<lparr>m_compliantContactSubsys := Some subsys\<rparr>]),
        subsystemTopologyVersion := 3,
        nextFree := 3\<rparr>"
  have c: "CompliantContactSubsystem_ctor subsys tracker ef dn = Inr ?impl"
    by (rule ctor_result)
  have d: "hasDefaultForceGenerator ?impl"
    by (simp add: hasDefaultForceGenerator_def)
  have d2: "\<exists>g. getDefaultForceGenerator ?impl = Inr g \<and>
          freeStore ?impl g = Some (dn\<lparr>m_compliantContactSubsys := Some subsys\<rparr>)"
    by (simp add: getDefaultForceGenerator_def)
  have e: "\<exists>g. getForceGenerator ?impl (getContactTypeId ef) = Inr g \<and>
          freeStore ?impl g = Some (ef\<lparr>m_compliantContactSubsys := Some subsys\<rparr>)"
    by (simp add: getForceGenerator_def)
  have h: "getContactTypeId ef \<noteq> CircularPointContactType \<longrightarrow>
        (\<exists>g. getForceGenerator ?impl CircularPointContactType = Inr g \<and>
             freeStore ?impl g = Some (HertzCircular_ctor\<lparr>m_compliantContactSubsys := Some subsys\<rparr>))"
    by (simp add: getForceGenerator_def)
  have t: "\<forall>type. \<exists>g obj. getForceGenerator ?impl type = Inr g \<and> freeStore ?impl g = Some obj"
    by (simp add: getForceGenerator_def getDefaultForceGenerator_def)
  have a: "\<forall>g impl'. adoptForceGenerator ?impl subsys g = Inr impl' \<longrightarrow>
        hasDefaultForceGenerator impl' \<and> (\<forall>type. \<exists>g'. getForceGenerator impl' type = Inr g')"
  proof (intro allI impI)
    fix g impl'
    assume "adoptForceGenerator ?impl subsys g = Inr impl'"
    then have "m_defaultGenerator impl' = m_defaultGenerator ?impl"
      by (rule adoptForceGenerator_keeps_default)
    then have "hasDefaultForceGenerator impl'"
      by (simp add: hasDefaultForceGenerator_def)
    then show "hasDefaultForceGenerator impl' \<and> (\<forall>type. \<exists>g'. getForceGenerator impl' type = Inr g')"
      using getForceGenerator_total by blast
  qed
  have b: "\<forall>g impl'. adoptDefaultForceGenerator ?impl subsys (Some g) = Inr impl' \<longrightarrow>
        hasDefaultForceGenerator impl' \<and> (\<forall>type. \<exists>g'. getForceGenerator impl' type = Inr g')"
  proof (intro allI impI)
    fix g impl'
    assume "adoptDefaultForceGenerator ?impl subsys (Some g) = Inr impl'"
    then have "hasDefaultForceGenerator impl'"
      by (simp add: hasDefaultForceGenerator_def adoptDefault_some_has_default)
    then show "hasDefaultForceGenerator impl' \<and> (\<forall>type. \<exists>g'. getForceGenerator impl' type = Inr g')"
      using getForceGenerator_total by blast
  qed
  have n: "\<exists>impl'. adoptDefaultForceGenerator ?impl subsys None = Inr impl' \<and>
        \<not> hasDefaultForceGenerator impl' \<and>
        (\<forall>type. \<not> hasForceGenerator ?impl type \<longrightarrow>
           getForceGenerator impl' type = Inl AssertionFailed)"
  proof -
    have "m_defaultGenerator ?impl = Some 2"
      by simp
    moreover have "freeStore ?impl 2 = Some (dn\<lparr>m_compliantContactSubsys := Some subsys\<rparr>)"
      by simp
    ultimately obtain impl' where r: "adoptDefaultForceGenerator ?impl subsys None = Inr impl'"
      using adoptDefault_null_succeeds by blast
    then have m: "m_defaultGenerator impl' = None \<and> m_generators impl' = m_generators ?impl"
      by (rule adoptDefault_null)
    then have "\<not> hasDefaultForceGenerator impl'"
      by (simp add: hasDefaultForceGenerator_def)
    moreover have "\<forall>type. \<not> hasForceGenerator ?impl type \<longrightarrow>
           getForceGenerator impl' type = Inl AssertionFailed"
      using m by (auto simp: getForceGenerator_def getDefaultForceGenerator_def
                    hasForceGenerator_def split: option.splits)
    ultimately show ?thesis
      using r by blast
  qed
  from c d d2 e h t a b n show ?thesis
    by blast
qed

theorem constructor_registers_generators_witness:
  "hasDefaultForceGenerator example_scene \<and>
   getForceGenerator example_scene CircularPointContactType = Inr 0 \<and>
   getForceGenerator example_scene (OtherContactType 5) = Inr 2 \<and>
   (\<exists>impl'. adoptForceGenerator example_scene 0 (Some 2) = Inr impl' \<and>
       hasDefaultForceGenerator impl') \<and>
   (\<exists>impl'. adoptDefaultForceGenerator example_scene 0 (Some 1) = Inr impl' \<and>
       hasDefaultForceGenerator impl') \<and>
   (\<exists>impl'. adoptDefaultForceGenerator example_scene 0 None = Inr impl' \<and>
       getForceGenerator impl' (OtherContactType 5) = Inl AssertionFailed)"
proof -
  let ?T = "example_tracker (example_material 100 0) (example_material 400 0)"
  let ?ef = "example_generator (OtherContactType 1)"
  let ?dn = "example_generator (OtherContactType 0)"
  from constructor_registers_generators [of 0 ?T ?ef ?dn]
  obtain impl where c: "CompliantContactSubsystem_ctor 0 ?T ?ef ?dn = Inr impl"
    and d: "hasDefaultForceGenerator impl"
    and a: "\<forall>g impl'. adoptForceGenerator impl 0 g = Inr impl' \<longrightarrow>
        hasDefaultForceGenerator impl' \<and> (\<forall>type. \<exists>g'. getForceGenerator impl' type = Inr g')"
    and b: "\<forall>g impl'. adoptDefaultForceGenerator impl 0 (Some g) = Inr impl' \<longrightarrow>
        hasDefaultForceGenerator impl' \<and> (\<forall>type. \<exists>g'. getForceGenerator impl' type = Inr g')"
    and n: "\<exists>impl'. adoptDefaultForceGenerator impl 0 None = Inr impl' \<and>
        \<not> hasDefaultForceGenerator impl' \<and>
        (\<forall>type. \<not> hasForceGenerator impl type \<longrightarrow>
           getForceGenerator impl' type = Inl AssertionFailed)"
    by blast
  have eq: "impl = example_scene"
    using c by (simp add: example_scene_def example_subsystem_def result_or_def)
  have g0: "getForceGenerator example_scene CircularPointContactType = Inr 0"
    by (simp add: example_scene_eq getForceGenerator_def)
  have g5: "getForceGenerator example_scene (OtherContactType 5) = Inr 2"
    by (simp add: example_scene_eq getForceGenerator_def getDefaultForceGenerator_def)
  have no5: "\<not> hasForceGenerator example_scene (OtherContactType 5)"
    by (simp add: example_scene_eq hasForceGenerator_def)
  have "\<exists>impl'. adoptForceGenerator example_scene 0 (Some 2) = Inr impl'"
    by (simp add: example_scene_eq adoptForceGenerator_def setCompliantContactSubsystem_def
          invalidateSubsystemTopologyCache_def example_generator_def Let_def)
  with a eq have r1: "\<exists>impl'. adoptForceGenerator example_scene 0 (Some 2) = Inr impl' \<and>
       hasDefaultForceGenerator impl'"
    by blast
  have "\<exists>impl'. adoptDefaultForceGenerator example_scene 0 (Some 1) = Inr impl'"
    by (simp add: example_scene_eq adoptDefaultForceGenerator_def setCompliantContactSubsystem_def
          invalidateSubsystemTopologyCache_def delete_generator_def Let_def)
  with b eq have r2: "\<exists>impl'. adoptDefaultForceGenerator example_scene 0 (Some 1) = Inr impl' \<and>
       hasDefaultForceGenerator impl'"
    by blast
  from n eq no5 have r3: "\<exists>impl'. adoptDefaultForceGenerator example_scene 0 None = Inr impl' \<and>
       getForceGenerator impl' (OtherContactType 5) = Inl AssertionFailed"
    by blast
  from d eq g0 g5 r1 r2 r3 show ?thesis
    by blast
qed

section \<open>The Hertz generator: dispatch and the cache loop\<close>

lemma calcContactForce_hertz:
  "freeStore impl g = Some obj \<Longrightarrow> generatorClass obj = HertzCircular \<Longrightarrow>
   calcContactForce Sig impl g state contact V1 V2 cf =
     HertzCircular_calcContactForce Sig impl state contact V1 V2 cf"
  by (simp add: calcContactForce_def)

lemma forceCacheLoop_step:
  assumes "getForceGenerator impl (getTypeId contact) = Inr g"
    and "calcContactForce Sig impl g state contact
           (findFrameVelocityInGround state (getMobilizedBody (m_tracker impl) (getSurface1 contact))
              (getContactSurfaceTransform (m_tracker impl) (getSurface1 contact)))
           (findFrameVelocityInGround state (getMobilizedBody (m_tracker impl) (getSurface2 contact))
              (getContactSurfaceTransform (m_tracker impl) (getSurface2 contact)))
           (ContactForce_ctor uninit) = Inr res"
  shows "forceCacheLoop Sig impl uninit state (contact # rest) forces =
           (if ContactForce_isValid res
            then forceCacheLoop Sig impl uninit state rest (forces @ [res])
            else forceCacheLoop Sig impl uninit state rest forces)"
  using assms by (simp add: Let_def)

lemma hertz_no_contact:
  "getTypeId contact = CircularPointContactType \<Longrightarrow> getDepth contact \<le> 0 \<Longrightarrow>
   HertzCircular_calcContactForce Sig impl state contact V1 V2 cf = Inr (ContactForce_clear cf)"
  by (simp add: HertzCircular_calcContactForce_def Let_def)

lemma hertz_yanking:
  "getTypeId contact = CircularPointContactType \<Longrightarrow> 0 < getDepth contact \<Longrightarrow>
   loc_fNormal (HertzCircular_locals impl state contact) \<le> 0 \<Longrightarrow>
   HertzCircular_calcContactForce Sig impl state contact V1 V2 cf =
     Inr (cf\<lparr>m_contactId := getContactId contact,
              m_centerOfPressureInG := loc_contactPt (HertzCircular_locals impl state contact),
              m_forceOnSurface2InG := (Vec3_zero, Vec3_zero),
              m_potentialEnergy := 0,
              m_powerLoss := 0\<rparr>)"
  by (simp add: HertzCircular_calcContactForce_def Let_def)

lemma hertz_valid_iff:
  "getTypeId contact = CircularPointContactType \<Longrightarrow> 0 < getDepth contact \<Longrightarrow>
   HertzCircular_calcContactForce Sig impl state contact V1 V2 cf = Inr cf' \<Longrightarrow>
   m_contactId cf' = getContactId contact"
  by (auto simp: HertzCircular_calcContactForce_def Let_def split: if_splits sum.splits prod.splits)

lemma hertz_depth_of_valid:
  assumes "getTypeId contact = CircularPointContactType"
    and "HertzCircular_calcContactForce Sig impl state contact V1 V2 (ContactForce_ctor uninit) = Inr res"
    and "ContactForce_isValid res"
  shows "0 < getDepth contact \<and> m_contactId res = getContactId contact"
proof (cases "getDepth contact \<le> 0")
  case True
  with assms(1,2) have "res = ContactForce_clear (ContactForce_ctor uninit)"
    by (simp add: hertz_no_contact)
  with assms(3) show ?thesis
    by (simp add: ContactForce_clear_def ContactForce_isValid_def)
next
  case False
  with assms(1,2) show ?thesis
    by (auto dest: hertz_valid_iff)
qed

text \<open>Every entry the loop adds comes from a contact of positive depth.\<close>

lemma forceCacheLoop_entries:
  assumes "\<forall>c \<in> set cs. getTypeId c = CircularPointContactType \<and>
             (\<exists>g obj. getForceGenerator impl (getTypeId c) = Inr g \<and>
                       freeStore impl g = Some obj \<and> generatorClass obj = HertzCircular)"
    and "forceCacheLoop Sig impl uninit state cs forces = (None, forces')"
    and "f \<in> set forces'"
  shows "f \<in> set forces \<or> (\<exists>c \<in> set cs. 0 < getDepth c \<and> m_contactId f = getContactId c)"
  using assms
proof (induction cs arbitrary: forces)
  case Nil
  then show ?case by simp
next
  case (Cons c cs)
  from Cons.prems(1) obtain g obj where circ: "getTypeId c = CircularPointContactType"
    and g: "getForceGenerator impl (getTypeId c) = Inr g"
    and obj: "freeStore impl g = Some obj" "generatorClass obj = HertzCircular"
    by auto
  let ?V1 = "findFrameVelocityInGround state (getMobilizedBody (m_tracker impl) (getSurface1 c))
              (getContactSurfaceTransform (m_tracker impl) (getSurface1 c))"
  let ?V2 = "findFrameVelocityInGround state (getMobilizedBody (m_tracker impl) (getSurface2 c))
              (getContactSurfaceTransform (m_tracker impl) (getSurface2 c))"
  let ?call = "HertzCircular_calcContactForce Sig impl state c ?V1 ?V2 (ContactForce_ctor uninit)"
  have call: "calcContactForce Sig impl g state c ?V1 ?V2 (ContactForce_ctor uninit) = ?call"
    using obj by (rule calcContactForce_hertz)
  have rest: "\<forall>c \<in> set cs. getTypeId c = CircularPointContactType \<and>
             (\<exists>g obj. getForceGenerator impl (getTypeId c) = Inr g \<and>
                       freeStore impl g = Some obj \<and> generatorClass obj = HertzCircular)"
    using Cons.prems(1) by auto
  show ?case
  proof (cases ?call)
    case (Inl e)
    with g call Cons.prems(2) show ?thesis
      by (simp add: Let_def)
  next
    case (Inr res)
    with call have c2: "calcContactForce Sig impl g state c ?V1 ?V2 (ContactForce_ctor uninit) = Inr res"
      by simp
    note step = forceCacheLoop_step [OF g c2, of cs forces]
    show ?thesis
    proof (cases "ContactForce_isValid res")
      case True
      with step Cons.prems(2)
      have "forceCacheLoop Sig impl uninit state cs (forces @ [res]) = (None, forces')"
        by simp
      from Cons.IH [OF rest this Cons.prems(3)]
      have "f \<in> set forces \<or> f = res \<or>
            (\<exists>c \<in> set cs. 0 < getDepth c \<and> m_contactId f = getContactId c)"
        by auto
      moreover have "0 < getDepth c \<and> m_contactId res = getContactId c"
        using circ Inr True by (rule hertz_depth_of_valid)
      ultimately show ?thesis by auto
    next
      case False
      with step Cons.prems(2)
      have "forceCacheLoop Sig impl uninit state cs forces = (None, forces')"
        by simp
      from Cons.IH [OF rest this Cons.prems(3)] show ?thesis by auto
    qed
  qed
qed

section \<open>The Hertz generator at the concrete inputs\<close>

lemma example_subsystem_eq:
  "example_subsystem tracker =
     \<lparr>m_tracker = tracker,
      m_transitionVelocity = 1 / 100,
      m_ooTransitionVelocity = 100,
      m_generators = [(CircularPointContactType, 0), (OtherContactType 1, 1)],
      m_defaultGenerator = Some 2,
      m_dissipatedEnergyIx = None,
      subsystemTopologyVersion = 3,
      freeStore =
        [0 \<mapsto> HertzCircular_ctor\<lparr>m_compliantContactSubsys := Some 0\<rparr>,
         1 \<mapsto> (example_generator (OtherContactType 1))\<lparr>m_compliantContactSubsys := Some 0\<rparr>,
         2 \<mapsto> (example_generator (OtherContactType 0))\<lparr>m_compliantContactSubsys := Some 0\<rparr>],
      nextFree = 3\<rparr>"
  by (simp add: example_subsystem_def ctor_result result_or_def
        CompliantContactSubsystemImpl_ctor_def example_generator_def)

lemma example_subsystem_dispatch:
  "getForceGenerator (example_subsystem tracker) CircularPointContactType = Inr 0 \<and>
   freeStore (example_subsystem tracker) 0
     = Some (HertzCircular_ctor\<lparr>m_compliantContactSubsys := Some 0\<rparr>) \<and>
   generatorClass (HertzCircular_ctor\<lparr>m_compliantContactSubsys := Some 0\<rparr>) = HertzCircular"
  by (simp add: example_subsystem_eq getForceGenerator_def HertzCircular_ctor_def)

lemma example_rest_locals:
  "HertzCircular_locals example_scene (example_rest_state cs) (example_contact (1 / 100)) =
   \<lparr>loc_mat1 = example_material 100 0, loc_mat2 = example_material 100 0,
    loc_contactPt = (0, 0, 0), loc_k = 50, loc_c = 0,
    loc_fH = (2 / 3) * sqrt (1 / 2), loc_xdot = 0, loc_velTangent = (0, 0, 0),
    loc_fHC = 0, loc_fNormal = (2 / 3) * sqrt (1 / 2)\<rparr>"
  by (simp add: HertzCircular_locals_def Let_def example_tracker_def example_contact_def
      example_material_def example_state_def example_rest_state_def findStationAtGroundPoint_def
      findStationVelocityInGround_def example_scene_def example_subsystem_eq
      getContactTrackerSubsystem_def)

lemma example_rest_force:
  "HertzCircular_calcContactForce Sig example_scene (example_rest_state cs)
      (example_contact (1 / 100)) V1 V2 cf =
   Inr (cf\<lparr>m_contactId := ContactId 7,
            m_centerOfPressureInG := (0, 0, 0),
            m_forceOnSurface2InG := ((0, 0, 0), (0, 0, (2 / 3) * sqrt (1 / 2))),
            m_potentialEnergy := (2 / 5) * ((2 / 3) * sqrt (1 / 2)) * (1 / 100),
            m_powerLoss := 0\<rparr>)"
  by (simp add: HertzCircular_calcContactForce_def Let_def example_rest_locals
        HertzCircular_friction_def square_def Vec3_zero_def)
     (simp add: example_contact_def)

lemma find_station_ignore_cache:
  "findStationAtGroundPoint (state\<lparr>potEnergyCache := pe\<rparr>) = findStationAtGroundPoint state"
  "findStationVelocityInGround (state\<lparr>potEnergyCache := pe\<rparr>) = findStationVelocityInGround state"
  by (simp_all add: fun_eq_iff findStationAtGroundPoint_def findStationVelocityInGround_def)

lemma hertz_locals_ignore_cache:
  "HertzCircular_locals impl (state\<lparr>potEnergyCache := pe\<rparr>) contact =
   HertzCircular_locals impl state contact"
  by (simp only: HertzCircular_locals_def find_station_ignore_cache)

lemma example_separating_locals:
  "HertzCircular_locals example_damped_scene (example_separating_state stage cs)
      (example_contact (1 / 100)) =
   \<lparr>loc_mat1 = example_material 200 1, loc_mat2 = example_material 200 1,
    loc_contactPt = (0, 0, 0), loc_k = 100, loc_c = 1,
    loc_fH = 4 / 3, loc_xdot = - 1, loc_velTangent = (0, 0, 0),
    loc_fHC = - 2, loc_fNormal = - (2 / 3)\<rparr>"
  by (simp add: HertzCircular_locals_def Let_def example_tracker_def example_contact_def
      example_material_def example_state_def example_separating_state_def
      findStationAtGroundPoint_def findStationVelocityInGround_def example_damped_scene_def
      example_subsystem_eq getContactTrackerSubsystem_def)

lemma example_damped_rest_locals:
  "HertzCircular_locals example_damped_scene (example_rest_state cs)
      (example_contact (1 / 100)) =
   \<lparr>loc_mat1 = example_material 200 1, loc_mat2 = example_material 200 1,
    loc_contactPt = (0, 0, 0), loc_k = 100, loc_c = 1,
    loc_fH = 4 / 3, loc_xdot = 0, loc_velTangent = (0, 0, 0),
    loc_fHC = 0, loc_fNormal = 4 / 3\<rparr>"
  by (simp add: HertzCircular_locals_def Let_def example_tracker_def example_contact_def
      example_material_def example_state_def example_rest_state_def
      findStationAtGroundPoint_def findStationVelocityInGround_def example_damped_scene_def
      example_subsystem_eq getContactTrackerSubsystem_def)

lemma example_damped_rest_force:
  "HertzCircular_calcContactForce Sig example_damped_scene (example_rest_state cs)
      (example_contact (1 / 100)) V1 V2 cf =
   Inr (cf\<lparr>m_contactId := ContactId 7,
            m_centerOfPressureInG := (0, 0, 0),
            m_forceOnSurface2InG := ((0, 0, 0), (0, 0, 4 / 3)),
            m_potentialEnergy := 2 / 375,
            m_powerLoss := 0\<rparr>)"
  by (simp add: HertzCircular_calcContactForce_def Let_def example_damped_rest_locals
        HertzCircular_friction_def square_def Vec3_zero_def)
     (simp add: example_contact_def)

lemma example_separating_force:
  "HertzCircular_calcContactForce Sig example_damped_scene (example_separating_state stage cs)
      (example_contact (1 / 100)) V1 V2 cf =
   Inr (cf\<lparr>m_contactId := ContactId 7,
            m_centerOfPressureInG := (0, 0, 0),
            m_forceOnSurface2InG := ((0, 0, 0), (0, 0, 0)),
            m_potentialEnergy := 0,
            m_powerLoss := 0\<rparr>)"
  by (simp add: HertzCircular_calcContactForce_def Let_def example_separating_locals
        Vec3_zero_def)
     (simp add: example_contact_def)

text \<open>
  Claim C1, evaluated on the code. Surface \<open>1\<close> has stiffness \<open>100\<close>, surface \<open>2\<close> has
  stiffness \<open>400\<close>, both have dissipation \<open>0\<close>, the depth is \<open>0.01\<close>, the effective radius is
  \<open>1\<close> and nothing moves. The generator returns a valid record with zero friction and
  zero power loss, but its combined stiffness is \<open>50\<close>, not \<open>80\<close>: both material
  references are read from surface \<open>1\<close>, so \<open>k2 = k1 = 100\<close> and \<open>s1 = 1/2\<close>. The normal
  force is \<open>(4/3) * 50 * x * sqrt (R * 50 * x)\<close>, strictly below the value the
  claim gives for \<open>k = 80\<close>, and the potential energy is \<open>2/5\<close> of that force times \<open>x\<close>.
\<close>

theorem hertz_end_to_end_reads_surface1_twice:
  "getStiffness23 (getContactSurfaceMaterial (m_tracker example_scene)
      (getSurface1 (example_contact (1 / 100)))) = 100 \<and>
   getStiffness23 (getContactSurfaceMaterial (m_tracker example_scene)
      (getSurface2 (example_contact (1 / 100)))) = 400 \<and>
   HertzCircular_calcContactForce (1 / 10 ^ 14) example_scene
      (example_rest_state [example_contact (1 / 100)]) (example_contact (1 / 100))
      ((0, 0, 0), (0, 0, 0)) ((0, 0, 0), (0, 0, 0)) (ContactForce_ctor example_uninit) =
     Inr \<lparr>m_contactId = ContactId 7, m_centerOfPressureInG = (0, 0, 0),
          m_forceOnSurface2InG = ((0, 0, 0), (0, 0, (4 / 3) * 50 * (1 / 100) * sqrt (1 * 50 * (1 / 100)))),
          m_potentialEnergy = (2 / 5) * ((4 / 3) * 50 * (1 / 100) * sqrt (1 * 50 * (1 / 100))) * (1 / 100),
          m_powerLoss = 0\<rparr> \<and>
   loc_k (HertzCircular_locals example_scene (example_rest_state [example_contact (1 / 100)])
      (example_contact (1 / 100))) = 50 \<and>
   loc_fH (HertzCircular_locals example_scene (example_rest_state [example_contact (1 / 100)])
      (example_contact (1 / 100))) < (4 / 3) * 80 * (1 / 100) * sqrt (1 * 80 * (1 / 100))"
proof -
  have a: "sqrt (1 / 2) < 1"
    by simp
  have "sqrt ((4 / 5)\<^sup>2) < sqrt (4 / 5)"
    by (rule real_sqrt_less_mono) (simp add: power2_eq_square)
  then have b: "4 / 5 < sqrt (4 / 5)"
    by simp
  have c: "(4 / 3) * 80 * (1 / 100) * sqrt (1 * 80 * (1 / 100)) = (16 / 15) * sqrt (4 / 5)"
    by simp
  have "(2 / 3) * sqrt (1 / 2) < (16 / 15) * sqrt (4 / 5)"
    using a b by linarith
  with c have lt: "(2 / 3) * sqrt (1 / 2) < (4 / 3) * 80 * (1 / 100) * sqrt (1 * 80 * (1 / 100))"
    by simp
  show ?thesis
    using lt
    by (simp add: example_rest_force example_rest_locals ContactForce_ctor_def example_uninit_def)
       (simp add: example_scene_def example_subsystem_eq example_tracker_def example_contact_def
          example_material_def)
qed

text \<open>
  Claim C2, evaluated on the code. The state is realized through Position stage only and
  body \<open>1\<close> moves away from body \<open>2\<close> along the normal at unit speed; the materials have
  stiffness \<open>200\<close> and dissipation \<open>1\<close>, the depth is \<open>0.01\<close>. The Position-stage derivation
  passes zero surface velocities to the generator, which does not read them: it takes
  the velocities from the state, finds the yanking case and reports potential energy
  \<open>0\<close>. The same generator at the same depth in a state with zero relative velocity
  reports \<open>2/375\<close>. The force cache is left as it was.
\<close>

theorem position_stage_energy_uses_state_velocity:
  "ensurePotentialEnergyCacheValid (1 / 10 ^ 14) example_damped_scene example_uninit
      (example_separating_state StagePosition [example_contact (1 / 100)]) =
     (None, (example_separating_state StagePosition [example_contact (1 / 100)])
              \<lparr>potEnergyCache := Some 0, potEnergyCacheRealized := True\<rparr>) \<and>
   HertzCircular_calcContactForce (1 / 10 ^ 14) example_damped_scene
      (example_rest_state [example_contact (1 / 100)]) (example_contact (1 / 100))
      ((0, 0, 0), (0, 0, 0)) ((0, 0, 0), (0, 0, 0)) (ContactForce_ctor example_uninit) =
     Inr \<lparr>m_contactId = ContactId 7, m_centerOfPressureInG = (0, 0, 0),
          m_forceOnSurface2InG = ((0, 0, 0), (0, 0, 4 / 3)),
          m_potentialEnergy = 2 / 375, m_powerLoss = 0\<rparr> \<and>
   getDepth (example_contact (1 / 100)) = 1 / 100"
proof -
  have d: "getForceGenerator example_damped_scene CircularPointContactType = Inr 0"
    "freeStore example_damped_scene 0 = Some (HertzCircular_ctor\<lparr>m_compliantContactSubsys := Some 0\<rparr>)"
    "generatorClass (HertzCircular_ctor\<lparr>m_compliantContactSubsys := Some 0\<rparr>) = HertzCircular"
    using example_subsystem_dispatch by (simp_all add: example_damped_scene_def)
  have t: "getTypeId (example_contact (1 / 100)) = CircularPointContactType"
    by (simp add: example_contact_def)
  have st: "getStage (example_separating_state StagePosition cs) = StagePosition"
    "getActiveContacts (example_separating_state StagePosition cs) = cs"
    "\<not> potEnergyCacheRealized (example_separating_state StagePosition cs)" for cs
    by (simp_all add: example_separating_state_def example_state_def)
  have upd: "(example_separating_state StagePosition cs)\<lparr>potEnergyCache := Some 0\<rparr>
             = example_separating_state StagePosition cs \<lparr>potEnergyCache := Some 0\<rparr>" for cs
    by simp
  have hz: "HertzCircular_calcContactForce Sig example_damped_scene
              ((example_separating_state StagePosition cs)\<lparr>potEnergyCache := Some 0\<rparr>)
              (example_contact (1 / 100)) V1 V2 cf =
            HertzCircular_calcContactForce Sig example_damped_scene
              (example_separating_state StagePosition cs)
              (example_contact (1 / 100)) V1 V2 cf" for Sig cs V1 V2 cf
    by (simp add: HertzCircular_calcContactForce_def hertz_locals_ignore_cache Let_def)
  have loop: "potentialEnergyLoop (1 / 10 ^ 14) example_damped_scene example_uninit
          ((example_separating_state StagePosition [example_contact (1 / 100)])\<lparr>potEnergyCache := Some 0\<rparr>)
          [example_contact (1 / 100)] 0 = (None, 0)"
    by (simp add: t d calcContactForce_hertz [OF d(2,3)] hz example_separating_force)
  have "ensurePotentialEnergyCacheValid (1 / 10 ^ 14) example_damped_scene example_uninit
      (example_separating_state StagePosition [example_contact (1 / 100)]) =
     (None, (example_separating_state StagePosition [example_contact (1 / 100)])
              \<lparr>potEnergyCache := Some 0, potEnergyCacheRealized := True\<rparr>)"
    by (simp add: ensurePotentialEnergyCacheValid_def isPotentialEnergyCacheValid_def isCacheValueRealized_def st stage_ge_def Let_def t d
          calcContactForce_hertz [OF d(2,3)] hz example_separating_force)
  moreover have "HertzCircular_calcContactForce (1 / 10 ^ 14) example_damped_scene
      (example_rest_state [example_contact (1 / 100)]) (example_contact (1 / 100))
      ((0, 0, 0), (0, 0, 0)) ((0, 0, 0), (0, 0, 0)) (ContactForce_ctor example_uninit) =
     Inr \<lparr>m_contactId = ContactId 7, m_centerOfPressureInG = (0, 0, 0),
          m_forceOnSurface2InG = ((0, 0, 0), (0, 0, 4 / 3)),
          m_potentialEnergy = 2 / 375, m_powerLoss = 0\<rparr>"
    by (simp add: example_damped_rest_force ContactForce_ctor_def example_uninit_def)
  moreover have "getDepth (example_contact (1 / 100)) = 1 / 100"
    by (simp add: example_contact_def)
  ultimately show ?thesis
    by blast
qed

section \<open>Contacts without penetration are left out of the force cache\<close>

lemma ensureForceCacheValid_entries:
  assumes "\<forall>c \<in> set (getActiveContacts state). getTypeId c = CircularPointContactType \<and>
             (\<exists>g obj. getForceGenerator impl (getTypeId c) = Inr g \<and>
                       freeStore impl g = Some obj \<and> generatorClass obj = HertzCircular)"
    and "\<not> forceCacheRealized state"
    and "ensureForceCacheValid Sig impl uninit state = (None, state')"
    and "f \<in> set (forceCache state')"
  shows "\<exists>c \<in> set (getActiveContacts state). 0 < getDepth c \<and> m_contactId f = getContactId c"
proof -
  obtain err forces where l:
    "forceCacheLoop Sig impl uninit state (getActiveContacts state) [] = (err, forces)"
    by (cases "forceCacheLoop Sig impl uninit state (getActiveContacts state) []")
  with assms(2,3) have "err = None" and "forceCache state' = forces"
    by (auto simp: ensureForceCacheValid_def isForceCacheValid_def isCacheValueRealized_def split: if_splits option.splits)
  with l assms(4) forceCacheLoop_entries [OF assms(1), of Sig uninit state "[]" forces f]
  show ?thesis
    by simp
qed

text \<open>
  Claim C4. For a circular point contact of depth \<open>\<le> 0\<close> the Hertz generator returns the
  record it was given, cleared, which is invalid; the loop that builds the force cache
  pops the record it pushed for that contact, so the array is the same as if the contact
  had not been there; and when every active contact is served by a Hertz generator, each
  entry of a successfully built force cache carries the id of an active contact of
  positive depth.
\<close>

theorem no_contact_is_omitted:
  assumes "getTypeId contact = CircularPointContactType"
    and "getDepth contact \<le> 0"
    and "getForceGenerator impl (getTypeId contact) = Inr g"
    and "freeStore impl g = Some obj"
    and "generatorClass obj = HertzCircular"
  shows "HertzCircular_calcContactForce Sig impl state contact V1 V2 cf
           = Inr (ContactForce_clear cf) \<and>
         \<not> ContactForce_isValid (ContactForce_clear cf) \<and>
         forceCacheLoop Sig impl uninit state (contact # rest) forces
           = forceCacheLoop Sig impl uninit state rest forces \<and>
         (\<forall>state'.
            (\<forall>c \<in> set (getActiveContacts state). getTypeId c = CircularPointContactType \<and>
               (\<exists>g obj. getForceGenerator impl (getTypeId c) = Inr g \<and>
                         freeStore impl g = Some obj \<and> generatorClass obj = HertzCircular)) \<and>
            \<not> forceCacheRealized state \<and>
            ensureForceCacheValid Sig impl uninit state = (None, state') \<longrightarrow>
            (\<forall>f \<in> set (forceCache state').
               \<exists>c \<in> set (getActiveContacts state).
                 0 < getDepth c \<and> m_contactId f = getContactId c))"
proof -
  have a: "HertzCircular_calcContactForce Sig impl state contact V1 V2 cf
           = Inr (ContactForce_clear cf)" for V1 V2 cf
    using assms(1,2) by (rule hertz_no_contact)
  have b: "\<not> ContactForce_isValid (ContactForce_clear cf)" for cf
    by (simp add: ContactForce_isValid_def ContactForce_clear_def)
  have "calcContactForce Sig impl g state contact V1 V2 (ContactForce_ctor uninit)
          = Inr (ContactForce_clear (ContactForce_ctor uninit))" for V1 V2
    using assms(4,5) a by (simp add: calcContactForce_hertz)
  from forceCacheLoop_step [OF assms(3) this] b
  have c: "forceCacheLoop Sig impl uninit state (contact # rest) forces
           = forceCacheLoop Sig impl uninit state rest forces"
    by simp
  from a b c ensureForceCacheValid_entries show ?thesis
    by blast
qed

theorem no_contact_is_omitted_witness:
  "HertzCircular_calcContactForce (1 / 10 ^ 14) example_scene
      (example_rest_state [example_contact 0, example_contact (1 / 100)]) (example_contact 0)
      ((0, 0, 0), (0, 0, 0)) ((0, 0, 0), (0, 0, 0)) example_uninit
     = Inr (ContactForce_clear example_uninit) \<and>
   forceCacheLoop (1 / 10 ^ 14) example_scene example_uninit
      (example_rest_state [example_contact 0, example_contact (1 / 100)]) [example_contact 0] []
     = (None, []) \<and>
   map m_contactId (forceCache (snd (ensureForceCacheValid (1 / 10 ^ 14) example_scene example_uninit
      (example_rest_state [example_contact 0, example_contact (1 / 100)])))) = [ContactId 7] \<and>
   (\<exists>c. c \<in> set [example_contact 0, example_contact (1 / 100)] \<and> 0 < getDepth c \<and>
        m_contactId (hd (forceCache (snd (ensureForceCacheValid (1 / 10 ^ 14) example_scene
          example_uninit (example_rest_state [example_contact 0, example_contact (1 / 100)])))))
          = getContactId c)"
proof -
  let ?st = "example_rest_state [example_contact 0, example_contact (1 / 100)]"
  let ?f = "(ContactForce_ctor example_uninit)\<lparr>m_contactId := ContactId 7,
            m_centerOfPressureInG := (0, 0, 0),
            m_forceOnSurface2InG := ((0, 0, 0), (0, 0, (2 / 3) * sqrt (1 / 2))),
            m_potentialEnergy := (2 / 5) * ((2 / 3) * sqrt (1 / 2)) * (1 / 100),
            m_powerLoss := 0\<rparr>"
  have d: "getForceGenerator example_scene CircularPointContactType = Inr 0"
    "freeStore example_scene 0 = Some (HertzCircular_ctor\<lparr>m_compliantContactSubsys := Some 0\<rparr>)"
    "generatorClass (HertzCircular_ctor\<lparr>m_compliantContactSubsys := Some 0\<rparr>) = HertzCircular"
    using example_subsystem_dispatch by (simp_all add: example_scene_def)
  have t: "getTypeId (example_contact x) = CircularPointContactType" for x
    by (simp add: example_contact_def)
  have z: "getDepth (example_contact 0) \<le> 0"
    by (simp add: example_contact_def)
  have st: "getActiveContacts ?st = [example_contact 0, example_contact (1 / 100)]"
    "\<not> forceCacheRealized ?st" "getStage ?st = StageVelocity"
    by (simp_all add: example_rest_state_def example_state_def)
  have valid: "ContactForce_isValid ?f"
    by (simp add: ContactForce_isValid_def)
  have run: "ensureForceCacheValid (1 / 10 ^ 14) example_scene example_uninit ?st
               = (None, ?st\<lparr>forceCache := [?f], forceCacheRealized := True\<rparr>)"
    using valid
    by (simp add: ensureForceCacheValid_def isForceCacheValid_def isCacheValueRealized_def st stage_ge_def t d Let_def
          calcContactForce_hertz [OF d(2,3)] hertz_no_contact [OF t z] example_rest_force
          ContactForce_isValid_def ContactForce_clear_def)
  have all: "\<forall>c \<in> set (getActiveContacts ?st). getTypeId c = CircularPointContactType \<and>
               (\<exists>g obj. getForceGenerator example_scene (getTypeId c) = Inr g \<and>
                         freeStore example_scene g = Some obj \<and> generatorClass obj = HertzCircular)"
    using d by (simp add: st t)
  have d1: "getForceGenerator example_scene (getTypeId (example_contact 0)) = Inr 0"
    by (simp add: t d)
  note inst = no_contact_is_omitted [OF t z d1 d(2,3),
      where Sig = "1 / 10 ^ 14" and state = ?st and ?V1.0 = "((0, 0, 0), (0, 0, 0))"
        and ?V2.0 = "((0, 0, 0), (0, 0, 0))" and cf = example_uninit and uninit = example_uninit
        and rest = "[]" and forces = "[]"]
  have first: "HertzCircular_calcContactForce (1 / 10 ^ 14) example_scene ?st (example_contact 0)
      ((0, 0, 0), (0, 0, 0)) ((0, 0, 0), (0, 0, 0)) example_uninit
     = Inr (ContactForce_clear example_uninit)"
    and loop: "forceCacheLoop (1 / 10 ^ 14) example_scene example_uninit ?st [example_contact 0] []
     = forceCacheLoop (1 / 10 ^ 14) example_scene example_uninit ?st [] []"
    and glob: "\<forall>f \<in> set [?f]. \<exists>c \<in> set (getActiveContacts ?st).
                 0 < getDepth c \<and> m_contactId f = getContactId c"
    using inst all st(2) run by (simp_all add: t d)
  from glob have "\<exists>c. c \<in> set [example_contact 0, example_contact (1 / 100)] \<and> 0 < getDepth c \<and>
        m_contactId ?f = getContactId c"
    by (simp add: st) blast
  with first loop run show ?thesis
    by simp
qed

section \<open>Yanking: contact without force\<close>

lemma forceCacheLoop_keeps:
  "forceCacheLoop Sig impl uninit state cs forces = (err, forces') \<Longrightarrow>
   set forces \<subseteq> set forces'"
proof (induction cs arbitrary: forces)
  case Nil
  then show ?case by simp
next
  case (Cons c cs)
  show ?case
  proof (cases "getForceGenerator impl (getTypeId c)")
    case (Inl e)
    with Cons.prems show ?thesis by simp
  next
    case (Inr g)
    let ?V1 = "findFrameVelocityInGround state (getMobilizedBody (m_tracker impl) (getSurface1 c))
                (getContactSurfaceTransform (m_tracker impl) (getSurface1 c))"
    let ?V2 = "findFrameVelocityInGround state (getMobilizedBody (m_tracker impl) (getSurface2 c))
                (getContactSurfaceTransform (m_tracker impl) (getSurface2 c))"
    show ?thesis
    proof (cases "calcContactForce Sig impl g state c ?V1 ?V2 (ContactForce_ctor uninit)")
      case (Inl e)
      with Inr Cons.prems show ?thesis by (auto simp: Let_def)
    next
      case r: (Inr res)
      note step = forceCacheLoop_step [OF Inr r, of cs forces]
      show ?thesis
      proof (cases "ContactForce_isValid res")
        case True
        with step Cons.prems
        have "forceCacheLoop Sig impl uninit state cs (forces @ [res]) = (err, forces')"
          by simp
        from Cons.IH [OF this] show ?thesis by simp
      next
        case False
        with step Cons.prems
        have "forceCacheLoop Sig impl uninit state cs forces = (err, forces')"
          by simp
        from Cons.IH [OF this] show ?thesis .
      qed
    qed
  qed
qed

lemma example_damped_dispatch:
  "getForceGenerator example_damped_scene CircularPointContactType = Inr 0"
  "freeStore example_damped_scene 0 = Some (HertzCircular_ctor\<lparr>m_compliantContactSubsys := Some 0\<rparr>)"
  "generatorClass (HertzCircular_ctor\<lparr>m_compliantContactSubsys := Some 0\<rparr>) = HertzCircular"
  using example_subsystem_dispatch by (simp_all add: example_damped_scene_def)

lemma example_contact_fields:
  "getTypeId (example_contact x) = CircularPointContactType"
  "getDepth (example_contact x) = x"
  "getContactId (example_contact x) = ContactId 7"
  "getEffectiveRadius (example_contact x) = 1"
  by (simp_all add: example_contact_def)

text \<open>
  Claim C3. For a circular point contact of positive depth whose total normal force
  \<open>fH + fHC\<close> is \<open>\<le> 0\<close>, the Hertz generator returns the record it was given with the
  contact's id, the contact point, a spatial force that is exactly zero, zero potential
  energy and zero power loss. When the contact's id is valid and the contact is served by
  a Hertz generator, that record is valid, the loop that builds the force cache keeps it,
  and it is an element of whatever array the loop ends with.
\<close>

theorem yanking_gives_zero_force:
  assumes "getTypeId contact = CircularPointContactType"
    and "0 < getDepth contact"
    and "loc_fNormal (HertzCircular_locals impl state contact) \<le> 0"
  shows "HertzCircular_calcContactForce Sig impl state contact V1 V2 cf =
           Inr (cf\<lparr>m_contactId := getContactId contact,
                    m_centerOfPressureInG := loc_contactPt (HertzCircular_locals impl state contact),
                    m_forceOnSurface2InG := (Vec3_zero, Vec3_zero),
                    m_potentialEnergy := 0,
                    m_powerLoss := 0\<rparr>) \<and>
         Vec3_zero = (0, 0, 0) \<and>
         (\<forall>g obj.
            getContactId contact \<noteq> InvalidContactId \<and>
            getForceGenerator impl (getTypeId contact) = Inr g \<and>
            freeStore impl g = Some obj \<and> generatorClass obj = HertzCircular \<longrightarrow>
            ContactForce_isValid
              \<lparr>m_contactId = getContactId contact,
               m_centerOfPressureInG = loc_contactPt (HertzCircular_locals impl state contact),
               m_forceOnSurface2InG = (Vec3_zero, Vec3_zero),
               m_potentialEnergy = 0, m_powerLoss = 0\<rparr> \<and>
            forceCacheLoop Sig impl uninit state (contact # rest) forces =
              forceCacheLoop Sig impl uninit state rest
                (forces @ [\<lparr>m_contactId = getContactId contact,
                            m_centerOfPressureInG = loc_contactPt (HertzCircular_locals impl state contact),
                            m_forceOnSurface2InG = (Vec3_zero, Vec3_zero),
                            m_potentialEnergy = 0, m_powerLoss = 0\<rparr>]) \<and>
            (\<forall>err forces'.
               forceCacheLoop Sig impl uninit state (contact # rest) forces = (err, forces') \<longrightarrow>
               \<lparr>m_contactId = getContactId contact,
                m_centerOfPressureInG = loc_contactPt (HertzCircular_locals impl state contact),
                m_forceOnSurface2InG = (Vec3_zero, Vec3_zero),
                m_potentialEnergy = 0, m_powerLoss = 0\<rparr> \<in> set forces'))"
proof -
  let ?z = "\<lparr>m_contactId = getContactId contact,
             m_centerOfPressureInG = loc_contactPt (HertzCircular_locals impl state contact),
             m_forceOnSurface2InG = (Vec3_zero, Vec3_zero),
             m_potentialEnergy = 0, m_powerLoss = 0\<rparr>"
  have a: "HertzCircular_calcContactForce Sig impl state contact V1 V2 cf =
           Inr (cf\<lparr>m_contactId := getContactId contact,
                    m_centerOfPressureInG := loc_contactPt (HertzCircular_locals impl state contact),
                    m_forceOnSurface2InG := (Vec3_zero, Vec3_zero),
                    m_potentialEnergy := 0,
                    m_powerLoss := 0\<rparr>)" for V1 V2 cf
    using assms by (rule hertz_yanking)
  have b: "ContactForce_isValid ?z \<and>
           forceCacheLoop Sig impl uninit state (contact # rest) forces =
             forceCacheLoop Sig impl uninit state rest (forces @ [?z]) \<and>
           (\<forall>err forces'.
               forceCacheLoop Sig impl uninit state (contact # rest) forces = (err, forces') \<longrightarrow>
               ?z \<in> set forces')"
    if id: "getContactId contact \<noteq> InvalidContactId"
      and g: "getForceGenerator impl (getTypeId contact) = Inr g"
      and obj: "freeStore impl g = Some obj" "generatorClass obj = HertzCircular"
    for g obj
  proof -
    have v: "ContactForce_isValid ?z"
      using id by (simp add: ContactForce_isValid_def)
    have "calcContactForce Sig impl g state contact V1 V2 (ContactForce_ctor uninit) = Inr ?z"
      for V1 V2
      using obj a by (simp add: calcContactForce_hertz ContactForce_ctor_def)
    from forceCacheLoop_step [OF g this, of rest forces] v
    have l: "forceCacheLoop Sig impl uninit state (contact # rest) forces =
             forceCacheLoop Sig impl uninit state rest (forces @ [?z])"
      by simp
    have "?z \<in> set forces'"
      if "forceCacheLoop Sig impl uninit state (contact # rest) forces = (err, forces')"
      for err forces'
    proof -
      from that l have "forceCacheLoop Sig impl uninit state rest (forces @ [?z]) = (err, forces')"
        by simp
      from forceCacheLoop_keeps [OF this] show ?thesis
        by simp
    qed
    with v l show ?thesis
      by blast
  qed
  from a b show ?thesis
    by (simp add: Vec3_zero_def)
qed

theorem yanking_gives_zero_force_witness:
  "HertzCircular_calcContactForce (1 / 10 ^ 14) example_damped_scene
      (example_separating_state StageVelocity [example_contact (1 / 100)])
      (example_contact (1 / 100)) ((0, 0, 0), (0, 0, - 1)) ((0, 0, 0), (0, 0, 0)) example_uninit
     = Inr \<lparr>m_contactId = ContactId 7, m_centerOfPressureInG = (0, 0, 0),
            m_forceOnSurface2InG = ((0, 0, 0), (0, 0, 0)),
            m_potentialEnergy = 0, m_powerLoss = 0\<rparr> \<and>
   loc_fNormal (HertzCircular_locals example_damped_scene
      (example_separating_state StageVelocity [example_contact (1 / 100)])
      (example_contact (1 / 100))) = - (2 / 3) \<and>
   forceCacheLoop (1 / 10 ^ 14) example_damped_scene example_uninit
      (example_separating_state StageVelocity [example_contact (1 / 100)])
      [example_contact (1 / 100)] []
     = (None, [\<lparr>m_contactId = ContactId 7, m_centerOfPressureInG = (0, 0, 0),
                 m_forceOnSurface2InG = ((0, 0, 0), (0, 0, 0)),
                 m_potentialEnergy = 0, m_powerLoss = 0\<rparr>])"
proof -
  let ?st = "example_separating_state StageVelocity [example_contact (1 / 100)]"
  let ?c = "example_contact (1 / 100)"
  have h2: "0 < getDepth ?c"
    by (simp add: example_contact_fields)
  have h3: "loc_fNormal (HertzCircular_locals example_damped_scene ?st ?c) \<le> 0"
    by (simp add: example_separating_locals)
  have g: "getForceGenerator example_damped_scene (getTypeId ?c) = Inr 0"
    by (simp add: example_contact_fields example_damped_dispatch)
  note inst = yanking_gives_zero_force [OF example_contact_fields(1) h2 h3,
      where Sig = "1 / 10 ^ 14" and ?V1.0 = "((0, 0, 0), (0, 0, - 1))"
        and ?V2.0 = "((0, 0, 0), (0, 0, 0))" and cf = example_uninit and uninit = example_uninit
        and rest = "[]" and forces = "[]"]
  from inst g example_damped_dispatch(2,3) show ?thesis
    by (simp add: example_separating_locals example_contact_fields example_uninit_def
          Vec3_zero_def)
qed

section \<open>Power loss is never negative\<close>










































section \<open>The power loss in binary64 arithmetic\<close>















end
